theory Spec2Isabelle
  imports Complex_Main
begin

section \<open>Python values, exceptions and arrays\<close>

text \<open>
  The exceptions the two modules can raise. \<open>UnboundLocalError\<close> is the subclass of
  \<open>NameError\<close> that Python raises for a local variable read before it is assigned;
  \<open>CvError\<close> is OpenCV's \<open>cv2.error\<close>.
\<close>

datatype error =
  TypeError | ValueError | NameError | UnboundLocalError | AttributeError
  | IndexError | KeyError | ZeroDivisionError | OverflowError | CvError

text \<open>
  The dynamically typed arguments that are only tested and handed on (a colour, an angle,
  a scale factor): \<open>None\<close>, an \<open>int\<close>, a \<open>float\<close> given by the real number it
  stands for, a \<open>str\<close>, a tuple, list or array of numbers, or any other object. The
  numbers the code computes with and whose rounding shows in a result (the bias of
  \<open>samesize\<close>, the corners of \<open>draw_box\<close>) are the \<open>pynum\<close> values below.
\<close>

datatype pyval =
  PyNone | PyInt int | PyFloat real | PyStr string | PySeq "real list" | PyObject

text \<open>\<open>isinstance(x, int)\<close>.\<close>

fun isinstance_int :: "pyval \<Rightarrow> bool" where
  "isinstance_int (PyInt i) = True"
| "isinstance_int v = False"

text \<open>
  \<open>spatialmath.base.isscalar\<close>: the argument is an \<open>int\<close> or a \<open>float\<close> (NumPy's
  \<open>float64\<close> is a \<open>float\<close>).
\<close>

fun isscalar :: "pyval \<Rightarrow> bool" where
  "isscalar (PyInt i) = True"
| "isscalar (PyFloat x) = True"
| "isscalar v = False"

text \<open>The number a scalar stands for.\<close>

fun num :: "pyval \<Rightarrow> real" where
  "num (PyInt i) = of_int i"
| "num (PyFloat x) = x"
| "num v = 0"

text \<open>\<open>len(x)\<close>: a \<open>TypeError\<close> for an object without a length.\<close>

fun py_len :: "pyval \<Rightarrow> error + nat" where
  "py_len (PyStr s) = Inr (length s)"
| "py_len (PySeq xs) = Inr (length xs)"
| "py_len v = Inl TypeError"

text \<open>\<open>x[::-1]\<close> on a string or a sequence.\<close>

fun py_reversed :: "pyval \<Rightarrow> pyval" where
  "py_reversed (PyStr s) = PyStr (rev s)"
| "py_reversed (PySeq xs) = PySeq (rev xs)"
| "py_reversed v = v"

subsection \<open>Python numbers: unbounded ints and IEEE 754 doubles\<close>

text \<open>
  Rounding a real number to the nearest integer, a tie going to the even one: what
  \<open>round(x)\<close> does, and what the double arithmetic does in the last place.
\<close>

definition py_round :: "real \<Rightarrow> int" where
  "py_round x =
     (let f = \<lfloor>x\<rfloor>; r = x - of_int f
      in if r < 1 / 2 then f
         else if 1 / 2 < r then f + 1
         else if even f then f else f + 1)"

text \<open>Truncation towards zero, as \<open>int(x)\<close> does on a finite float.\<close>

definition trunc :: "real \<Rightarrow> int" where
  "trunc x = (if 0 \<le> x then \<lfloor>x\<rfloor> else \<lceil>x\<rceil>)"

text \<open>
  A Python \<open>float\<close> is an IEEE 754 double: a finite value, an infinity or NaN. The two
  zeros are one value here; the functions modelled never tell them apart (they add,
  subtract, multiply, halve, compare and convert to \<open>int\<close>, and a division by either
  zero raises).
\<close>

datatype pyfloat = Finite real | PosInf | NegInf | NaN

text \<open>
  Rounding a real number to a double, to nearest and ties to even. A double has 53
  significant bits; the exponent of its last place is that of the value less 52, and never
  below \<open>-1074\<close> (the subnormal numbers). A result beyond the largest double,
  \<open>2^1024 - 2^971\<close>, is an infinity.
\<close>

definition ulp_exp :: "real \<Rightarrow> int" where
  "ulp_exp x = max \<lfloor>log 2 \<bar>x\<bar>\<rfloor> (- 1022) - 52"

definition round_double :: "real \<Rightarrow> real" where
  "round_double x =
     (if x = 0 then 0
      else of_int (py_round (x / 2 powr of_int (ulp_exp x))) * 2 powr of_int (ulp_exp x))"

definition max_double :: real where
  "max_double = 2 ^ 1024 - 2 ^ 971"

definition fl :: "real \<Rightarrow> pyfloat" where
  "fl x =
     (let r = round_double x
      in if max_double < r then PosInf
         else if r < - max_double then NegInf
         else Finite r)"

text \<open>\<open>a < b\<close> on floats: false whenever one of them is NaN.\<close>

fun flt :: "pyfloat \<Rightarrow> pyfloat \<Rightarrow> bool" where
  "flt NaN b = False"
| "flt a NaN = False"
| "flt (Finite a) (Finite b) = (a < b)"
| "flt PosInf b = False"
| "flt a NegInf = False"
| "flt a PosInf = True"
| "flt NegInf b = True"

text \<open>The sign of a float that is not NaN, as \<open>1\<close>, \<open>0\<close> or \<open>-1\<close>.\<close>

fun fsign :: "pyfloat \<Rightarrow> int" where
  "fsign (Finite a) = (if 0 < a then 1 else if a < 0 then - 1 else 0)"
| "fsign PosInf = 1"
| "fsign NegInf = - 1"
| "fsign NaN = 0"

fun fneg :: "pyfloat \<Rightarrow> pyfloat" where
  "fneg (Finite a) = Finite (- a)"
| "fneg PosInf = NegInf"
| "fneg NegInf = PosInf"
| "fneg NaN = NaN"

text \<open>
  \<open>a + b\<close>, \<open>a - b\<close> and \<open>a * b\<close> on floats: the exact result rounded; NaN for
  \<open>inf - inf\<close> and \<open>inf * 0\<close>, and whenever an operand is NaN.
\<close>

fun fadd :: "pyfloat \<Rightarrow> pyfloat \<Rightarrow> pyfloat" where
  "fadd NaN b = NaN"
| "fadd a NaN = NaN"
| "fadd (Finite a) (Finite b) = fl (a + b)"
| "fadd PosInf NegInf = NaN"
| "fadd NegInf PosInf = NaN"
| "fadd PosInf b = PosInf"
| "fadd NegInf b = NegInf"
| "fadd a PosInf = PosInf"
| "fadd a NegInf = NegInf"

definition fsub :: "pyfloat \<Rightarrow> pyfloat \<Rightarrow> pyfloat" where
  "fsub a b = fadd a (fneg b)"

fun fmul :: "pyfloat \<Rightarrow> pyfloat \<Rightarrow> pyfloat" where
  "fmul NaN b = NaN"
| "fmul a NaN = NaN"
| "fmul (Finite a) (Finite b) = fl (a * b)"
| "fmul a b =
     (if fsign a * fsign b = 0 then NaN
      else if 0 < fsign a * fsign b then PosInf else NegInf)"

text \<open>
  \<open>a / b\<close> on Python floats raises \<open>ZeroDivisionError\<close> for a zero divisor, whatever
  the dividend.
\<close>

fun fdiv :: "pyfloat \<Rightarrow> pyfloat \<Rightarrow> error + pyfloat" where
  "fdiv a (Finite b) =
     (if b = 0 then Inl ZeroDivisionError
      else case a of
             Finite x \<Rightarrow> Inr (fl (x / b))
           | NaN \<Rightarrow> Inr NaN
           | _ \<Rightarrow> Inr (if 0 < fsign a * fsign (Finite b) then PosInf else NegInf))"
| "fdiv a NaN = Inr NaN"
| "fdiv (Finite x) b = Inr (Finite 0)"
| "fdiv a b = Inr NaN"

text \<open>\<open>np.floor\<close> on a float.\<close>

fun ffloor :: "pyfloat \<Rightarrow> pyfloat" where
  "ffloor (Finite a) = Finite (of_int \<lfloor>a\<rfloor>)"
| "ffloor a = a"

text \<open>
  A number: a Python \<open>int\<close>, which is unbounded, or a \<open>float\<close>.
\<close>

datatype pynum = PyI int | PyF pyfloat

text \<open>
  An \<open>int\<close> that meets a \<open>float\<close> in an operation is converted to a double, rounded
  like any other value; one too large for a double raises \<open>OverflowError\<close>.
\<close>

definition int_to_float :: "int \<Rightarrow> error + pyfloat" where
  "int_to_float i =
     (case fl (of_int i) of Finite x \<Rightarrow> Inr (Finite x) | _ \<Rightarrow> Inl OverflowError)"

text \<open>\<open>a + b\<close>, \<open>a - b\<close> and \<open>a / b\<close> on numbers.\<close>

fun py_add :: "pynum \<Rightarrow> pynum \<Rightarrow> error + pynum" where
  "py_add (PyI a) (PyI b) = Inr (PyI (a + b))"
| "py_add (PyI a) (PyF g) =
     (case int_to_float a of Inl e \<Rightarrow> Inl e | Inr f \<Rightarrow> Inr (PyF (fadd f g)))"
| "py_add (PyF f) (PyI b) =
     (case int_to_float b of Inl e \<Rightarrow> Inl e | Inr g \<Rightarrow> Inr (PyF (fadd f g)))"
| "py_add (PyF f) (PyF g) = Inr (PyF (fadd f g))"

fun py_sub :: "pynum \<Rightarrow> pynum \<Rightarrow> error + pynum" where
  "py_sub (PyI a) (PyI b) = Inr (PyI (a - b))"
| "py_sub (PyI a) (PyF g) =
     (case int_to_float a of Inl e \<Rightarrow> Inl e | Inr f \<Rightarrow> Inr (PyF (fsub f g)))"
| "py_sub (PyF f) (PyI b) =
     (case int_to_float b of Inl e \<Rightarrow> Inl e | Inr g \<Rightarrow> Inr (PyF (fsub f g)))"
| "py_sub (PyF f) (PyF g) = Inr (PyF (fsub f g))"

text \<open>
  True division gives a float. Of two ints it is their exact quotient rounded, with
  \<open>OverflowError\<close> when that is too large for a double.
\<close>

fun py_truediv :: "pynum \<Rightarrow> pynum \<Rightarrow> error + pynum" where
  "py_truediv (PyI a) (PyI b) =
     (if b = 0 then Inl ZeroDivisionError
      else case fl (of_int a / of_int b) of
             Finite q \<Rightarrow> Inr (PyF (Finite q))
           | _ \<Rightarrow> Inl OverflowError)"
| "py_truediv (PyI a) (PyF g) =
     (case int_to_float a of
        Inl e \<Rightarrow> Inl e
      | Inr f \<Rightarrow> (case fdiv f g of Inl e \<Rightarrow> Inl e | Inr q \<Rightarrow> Inr (PyF q)))"
| "py_truediv (PyF f) (PyI b) =
     (case int_to_float b of
        Inl e \<Rightarrow> Inl e
      | Inr g \<Rightarrow> (case fdiv f g of Inl e \<Rightarrow> Inl e | Inr q \<Rightarrow> Inr (PyF q)))"
| "py_truediv (PyF f) (PyF g) =
     (case fdiv f g of Inl e \<Rightarrow> Inl e | Inr q \<Rightarrow> Inr (PyF q))"

text \<open>
  \<open>int(x)\<close> truncates a float towards zero and \<open>round(x)\<close> rounds it, a tie going
  to the even integer; both raise \<open>ValueError\<close> for NaN and \<open>OverflowError\<close> for an
  infinity.
\<close>

fun py_int :: "pynum \<Rightarrow> error + int" where
  "py_int (PyI i) = Inr i"
| "py_int (PyF (Finite x)) = Inr (trunc x)"
| "py_int (PyF NaN) = Inl ValueError"
| "py_int (PyF a) = Inl OverflowError"

fun py_round_num :: "pynum \<Rightarrow> error + int" where
  "py_round_num (PyI i) = Inr i"
| "py_round_num (PyF (Finite x)) = Inr (py_round x)"
| "py_round_num (PyF NaN) = Inl ValueError"
| "py_round_num (PyF a) = Inl OverflowError"

text \<open>The real number a finite number stands for.\<close>

fun num_val :: "pynum \<Rightarrow> real option" where
  "num_val (PyI i) = Some (of_int i)"
| "num_val (PyF (Finite x)) = Some x"
| "num_val (PyF a) = None"

subsection \<open>Arrays\<close>

text \<open>
  A NumPy array holding an image: \<open>arr_h\<close> rows of \<open>arr_w\<close> pixels, with
  \<open>arr_planes = None\<close> for a 2-dimensional (greyscale) array and \<open>Some p\<close> for a
  3-dimensional one with \<open>p\<close> planes. The shape is kept beside the data, since an array
  with no rows still has a width. \<open>arr_data\<close> lists the rows from the top, each row its
  pixels from the left, each pixel its plane values (one value for a 2-dimensional array).
\<close>

record ndarray =
  arr_h :: nat
  arr_w :: nat
  arr_planes :: "nat option"
  arr_dtype :: string
  arr_data :: "real list list list"

definition shape :: "ndarray \<Rightarrow> nat list" where
  "shape a = [arr_h a, arr_w a] @ (case arr_planes a of None \<Rightarrow> [] | Some p \<Rightarrow> [p])"

text \<open>
  A bound of a slice \<open>a[start:stop]\<close> over \<open>n\<close> items: a negative bound counts from the
  end, and every bound is clamped to \<open>0..n\<close>. The bound \<open>-0\<close> is \<open>0\<close>.
\<close>

definition slice_bound :: "nat \<Rightarrow> int \<Rightarrow> nat" where
  "slice_bound n i = (if i < 0 then nat (int n + i) else min n (nat i))"

definition py_slice :: "int \<Rightarrow> int \<Rightarrow> 'a list \<Rightarrow> 'a list" where
  "py_slice start stop xs =
     drop (slice_bound (length xs) start) (take (slice_bound (length xs) stop) xs)"

text \<open>
  \<open>a[start:stop, :, :]\<close> and \<open>a[:, start:stop, :]\<close>: three indices into a
  2-dimensional array raise \<open>IndexError\<close>.
\<close>

definition getitem_rows3 :: "ndarray \<Rightarrow> int \<Rightarrow> int \<Rightarrow> error + ndarray" where
  "getitem_rows3 a start stop =
     (case arr_planes a of
        None \<Rightarrow> Inl IndexError
      | Some p \<Rightarrow>
          Inr (a\<lparr>arr_h := slice_bound (arr_h a) stop - slice_bound (arr_h a) start,
                 arr_data := py_slice start stop (arr_data a)\<rparr>))"

definition getitem_cols3 :: "ndarray \<Rightarrow> int \<Rightarrow> int \<Rightarrow> error + ndarray" where
  "getitem_cols3 a start stop =
     (case arr_planes a of
        None \<Rightarrow> Inl IndexError
      | Some p \<Rightarrow>
          Inr (a\<lparr>arr_w := slice_bound (arr_w a) stop - slice_bound (arr_w a) start,
                 arr_data := map (py_slice start stop) (arr_data a)\<rparr>))"

section \<open>The Image class and the libraries behind it\<close>

text \<open>
  Modelled from the spec: the \<open>Image\<close> class itself is not among the sources (only its
  mixin \<open>ImageReshapeMixin\<close> is). An image object wraps a pixel array, read as
  \<open>self.A\<close> and as \<open>self.image\<close>, and a colour order; \<open>height\<close> and \<open>width\<close> are the
  array's row and column counts, \<open>self.shape\<close> and \<open>self.dtype\<close> are the array's.
\<close>

record Image =
  A :: ndarray
  colororder :: "string option"

definition height :: "Image \<Rightarrow> nat" where
  "height im = arr_h (A im)"

definition width :: "Image \<Rightarrow> nat" where
  "width im = arr_w (A im)"

text \<open>
  OpenCV is outside the repository. Its routines are parameters of the model: a record of
  functions, each of which may fail. \<open>rectangle\<close> and \<open>putText\<close> draw into the array they
  are given, so they return the array as it is after the call.
\<close>

datatype interp = INTER_NEAREST | INTER_LINEAR | INTER_CUBIC | INTER_AREA

record cvlib =
  resize :: "ndarray \<Rightarrow> real \<Rightarrow> real \<Rightarrow> interp \<Rightarrow> error + ndarray"
  getRotationMatrix2D :: "real list \<Rightarrow> real \<Rightarrow> real \<Rightarrow> error + real list list"
  warpAffine :: "ndarray \<Rightarrow> real list list \<Rightarrow> nat \<times> nat \<Rightarrow> error + ndarray"
  rectangle :: "ndarray \<Rightarrow> int \<times> int \<Rightarrow> int \<times> int \<Rightarrow> pyval \<Rightarrow> int \<Rightarrow> error + ndarray"
  putText ::
    "ndarray \<Rightarrow> string option \<Rightarrow> real \<times> real \<Rightarrow> int \<Rightarrow> real \<Rightarrow> pyval \<Rightarrow> int \<Rightarrow> error + ndarray"
  getTextSize :: "string \<Rightarrow> int \<Rightarrow> real \<Rightarrow> int \<Rightarrow> error + ((int \<times> int) \<times> int)"

text \<open>
  An item of a position given as a tuple or list: a number, or itself a tuple or list of
  numbers.
\<close>

datatype pos_item = ItemNum real | ItemSeq "real list"

text \<open>
  Functions of the toolbox, of \<open>spatialmath\<close> and of Python that the two modules call
  and that are not among the sources: \<open>Image.smooth\<close>, \<open>color_bgr\<close>,
  \<open>base.islistof(pos, (tuple, list))\<close> and \<open>str.format\<close> with one argument.
\<close>

record toolbox =
  smooth :: "Image \<Rightarrow> real \<Rightarrow> error + Image"
  color_bgr :: "string \<Rightarrow> error + pyval"
  islistof_seq :: "pos_item list \<Rightarrow> bool"
  str_format :: "string \<Rightarrow> nat \<Rightarrow> string"

section \<open>ImageReshape.py: scale and samesize\<close>

text \<open>The \<open>interpolation\<close> argument of \<open>scale\<close>: \<open>None\<close>, a string, or anything else.\<close>

datatype interp_arg = InterpNone | InterpStr string | InterpOther

text \<open>
  \<open>scale(self, sfactor, outsize=None, sigma=None, interpolation=None)\<close>. The
  \<open>outsize\<close> argument is never read.
\<close>

definition scale ::
  "cvlib \<Rightarrow> toolbox \<Rightarrow> Image \<Rightarrow> pyval \<Rightarrow> pyval \<Rightarrow> real option \<Rightarrow> interp_arg \<Rightarrow> error + Image" where
  "scale cv tb self sfactor outsize sigma interpolation =
     (if \<not> isscalar sfactor then Inl TypeError
      else
        case (case interpolation of
                InterpNone \<Rightarrow>
                  (if num sfactor > 1 then Inr INTER_CUBIC else Inr INTER_CUBIC)
              | InterpStr s \<Rightarrow>
                  (if s = ''cubic'' then Inr INTER_CUBIC
                   else if s = ''linear'' then Inr INTER_LINEAR
                   else if s = ''area'' then Inr INTER_AREA
                   else Inl ValueError)
              | InterpOther \<Rightarrow> Inl TypeError) of
          Inl e \<Rightarrow> Inl e
        | Inr interpolation' \<Rightarrow>
            (case (case sigma of
                     Some s \<Rightarrow> (if num sfactor < 1 then smooth tb self s else Inr self)
                   | None \<Rightarrow> Inr self) of
               Inl e \<Rightarrow> Inl e
             | Inr im \<Rightarrow>
                 (case resize cv (A im) (num sfactor) (num sfactor) interpolation' of
                    Inl e \<Rightarrow> Inl e
                  | Inr out \<Rightarrow> Inr \<lparr>A = out, colororder = colororder self\<rparr>)))"

text \<open>
  In \<open>samesize\<close> the name \<open>o\<close> is first bound to the scaled image object and, when rows
  are trimmed, rebound to a bare array. A bare array has no \<open>width\<close> and no \<open>image\<close>
  attribute.
\<close>

datatype pyobj = ImageObj Image | ArrayObj ndarray

fun obj_width :: "pyobj \<Rightarrow> error + nat" where
  "obj_width (ImageObj im) = Inr (width im)"
| "obj_width (ArrayObj a) = Inl AttributeError"

fun obj_image :: "pyobj \<Rightarrow> error + ndarray" where
  "obj_image (ImageObj im) = Inr (A im)"
| "obj_image (ArrayObj a) = Inl AttributeError"

text \<open>
  \<open>max(1, int(np.floor(d * bias)))\<close> for the \<open>int\<close> \<open>d\<close> and the float \<open>bias\<close>:
  \<open>d\<close> is converted to a double, the product is rounded, and \<open>int\<close> raises
  \<open>ValueError\<close> for NaN. (A bias given as the \<open>int\<close> 0 or 1 gives the same values as
  the float 0.0 or 1.0.)
\<close>

definition trim_first :: "int \<Rightarrow> pyfloat \<Rightarrow> error + int" where
  "trim_first d bias =
     (case int_to_float d of
        Inl e \<Rightarrow> Inl e
      | Inr f \<Rightarrow>
          (case py_int (PyF (ffloor (fmul f bias))) of
             Inl e \<Rightarrow> Inl e
           | Inr n \<Rightarrow> Inr (max 1 n)))"

text \<open>
  Lines 203 to 209: \<open>if o.height > im2.width: ... o = o.image[d1:-d2, :, :]\<close>.
\<close>

definition samesize_rows :: "Image \<Rightarrow> Image \<Rightarrow> pyfloat \<Rightarrow> error + pyobj" where
  "samesize_rows scaled im2 bias =
     (if height scaled > width im2 then
        let d = int (height scaled) - int (height im2)
        in case trim_first d bias of
             Inl e \<Rightarrow> Inl e
           | Inr d1 \<Rightarrow>
               let d2 = d - d1
               in case getitem_rows3 (A scaled) d1 (- d2) of
                    Inl e \<Rightarrow> Inl e
                  | Inr a \<Rightarrow> Inr (ArrayObj a)
      else Inr (ImageObj scaled))"

text \<open>
  Lines 210 to 219: \<open>if o.width > im2.width: ... out = o.image[:, d1:-d2, :]\<close>, then
  \<open>return self.__class__(out, colororder=self.colororder)\<close>. The name \<open>out\<close> is bound
  only inside the \<open>if\<close>.
\<close>

definition samesize_cols :: "Image \<Rightarrow> pyobj \<Rightarrow> Image \<Rightarrow> pyfloat \<Rightarrow> error + Image" where
  "samesize_cols self ob im2 bias =
     (case obj_width ob of
        Inl e \<Rightarrow> Inl e
      | Inr ow \<Rightarrow>
          if ow > width im2 then
            let d = int ow - int (width im2)
            in case trim_first d bias of
                 Inl e \<Rightarrow> Inl e
               | Inr d1 \<Rightarrow>
                   let d2 = d - d1
                   in case obj_image ob of
                        Inl e \<Rightarrow> Inl e
                      | Inr arr \<Rightarrow>
                          (case getitem_cols3 arr d1 (- d2) of
                             Inl e \<Rightarrow> Inl e
                           | Inr out \<Rightarrow> Inr \<lparr>A = out, colororder = colororder self\<rparr>)
          else Inl UnboundLocalError)"

text \<open>
  The quotient of two sizes in NumPy: both are converted to doubles and the quotient is
  rounded.
\<close>

definition np_true_divide :: "nat \<Rightarrow> nat \<Rightarrow> real" where
  "np_true_divide a b = round_double (round_double (real a) / round_double (real b))"

text \<open>
  \<open>samesize(self, im2, bias=0.5)\<close>. A NaN bias passes the check of the first line,
  since every comparison with NaN is false. The scale factor is the larger of the ratios
  \<open>im2.shape[:2] / im.shape[:2]\<close>. For a source with no rows or no columns NumPy's
  division yields \<open>inf\<close> or \<open>nan\<close> rather than raising, and \<open>cv.resize\<close> then rejects
  the empty source: that case is the \<open>CvError\<close> branch.
\<close>

definition samesize :: "cvlib \<Rightarrow> toolbox \<Rightarrow> Image \<Rightarrow> Image \<Rightarrow> pyfloat \<Rightarrow> error + Image" where
  "samesize cv tb self im2 bias =
     (if flt bias (Finite 0) \<or> flt (Finite 1) bias then Inl ValueError
      else
        let im = A self;
            sc = [np_true_divide (height im2) (arr_h im),
                  np_true_divide (width im2) (arr_w im)]
        in if arr_h im = 0 \<or> arr_w im = 0 then Inl CvError
           else
             case scale cv tb self (PyFloat (Max (set sc))) PyNone None InterpNone of
               Inl e \<Rightarrow> Inl e
             | Inr scaled \<Rightarrow>
                 (case samesize_rows scaled im2 bias of
                    Inl e \<Rightarrow> Inl e
                  | Inr ob \<Rightarrow> samesize_cols self ob im2 bias))"

section \<open>ImageReshape.py: hcat and pad\<close>

text \<open>
  \<open>np.empty(shape=(h, w))\<close>: a 2-dimensional \<open>float64\<close> array. Its content is whatever
  the memory held; the source only asks for \<open>w = 0\<close>, an array without elements.
\<close>

definition np_empty2 :: "nat \<Rightarrow> nat \<Rightarrow> ndarray" where
  "np_empty2 h w =
     \<lparr>arr_h = h, arr_w = w, arr_planes = None, arr_dtype = ''float64'',
      arr_data = replicate h (replicate w [0])\<rparr>"

text \<open>
  A number stored into an array is cast to the array's dtype. For an integer dtype the
  fraction is dropped and the value wraps around: 300 stored into a \<open>uint8\<close> array is
  44. (For a float beyond the range of the dtype the result of the cast depends on the
  platform; the wrap-around is the common one.) Any other dtype, in particular
  \<open>float64\<close>, keeps the value.
\<close>

definition int_dtype :: "string \<Rightarrow> (bool \<times> nat) option" where
  "int_dtype d =
     (if d = ''uint8'' then Some (False, 8)
      else if d = ''uint16'' then Some (False, 16)
      else if d = ''uint32'' then Some (False, 32)
      else if d = ''uint64'' then Some (False, 64)
      else if d = ''int8'' then Some (True, 8)
      else if d = ''int16'' then Some (True, 16)
      else if d = ''int32'' then Some (True, 32)
      else if d = ''int64'' then Some (True, 64)
      else None)"

definition np_cast :: "string \<Rightarrow> real \<Rightarrow> real" where
  "np_cast d v =
     (case int_dtype d of
        None \<Rightarrow> v
      | Some (signed, b) \<Rightarrow>
          if signed then of_int ((trunc v + 2 ^ (b - 1)) mod 2 ^ b - 2 ^ (b - 1))
          else of_int (trunc v mod 2 ^ b))"

text \<open>
  \<open>np.pad(a, ((n_top, n_bottom), (n_left, n_right)), constant_values=(before, after))\<close>
  in NumPy's default mode \<open>constant\<close>. A pair of constants is read as (before, after) for
  every axis: the rows added above and the columns added on the left hold \<open>before\<close>, the
  rows added below and the columns added on the right hold \<open>after\<close>, each cast to the
  dtype of the array. Two pairs of widths do not fit a 3-dimensional array, which raises
  \<open>ValueError\<close>.
\<close>

definition np_pad ::
  "ndarray \<Rightarrow> (nat \<times> nat) \<times> (nat \<times> nat) \<Rightarrow> real \<times> real \<Rightarrow> error + ndarray" where
  "np_pad a pad_width constant_values =
     (case arr_planes a of
        Some p \<Rightarrow> Inl ValueError
      | None \<Rightarrow>
          (case (pad_width, constant_values) of
             (((n_top, n_bottom), (n_left, n_right)), (before, after)) \<Rightarrow>
               let v0 = np_cast (arr_dtype a) before;
                   v1 = np_cast (arr_dtype a) after
               in Inr (a\<lparr>arr_h := n_top + arr_h a + n_bottom,
                         arr_w := n_left + arr_w a + n_right,
                         arr_data :=
                           map (\<lambda>r. replicate n_left [v0] @ r @ replicate n_right [v1])
                             (replicate n_top (replicate (arr_w a) [v0])
                              @ arr_data a
                              @ replicate n_bottom (replicate (arr_w a) [v1]))\<rparr>)))"

text \<open>
  \<open>np.hstack((a, b))\<close>: the columns of \<open>b\<close> to the right of those of \<open>a\<close>. The arrays
  must have the same number of dimensions and agree in every dimension but the second,
  else \<open>ValueError\<close>. The result keeps the dtype of \<open>a\<close>: in \<open>hcat\<close> that is
  \<open>float64\<close>, to which every integer and floating dtype is promoted.
\<close>

definition np_hstack :: "ndarray \<Rightarrow> ndarray \<Rightarrow> error + ndarray" where
  "np_hstack a b =
     (if arr_planes a = arr_planes b then
        if arr_h a = arr_h b then
          Inr (a\<lparr>arr_w := arr_w a + arr_w b,
                 arr_data := map (\<lambda>(r, s). r @ s) (zip (arr_data a) (arr_data b))\<rparr>)
        else Inl ValueError
      else Inl ValueError)"

text \<open>
  \<open>hcat(cls, *pos, pad=0)\<close> takes the images one by one or as one tuple or list. When
  the first positional argument is not a tuple or list, \<open>pos\<close> itself is the sequence of
  images, and an item of it that is a list has no \<open>height\<close>.
\<close>

datatype hcat_arg = ArgImage Image | ArgSeq "Image list"

fun images_of :: "hcat_arg list \<Rightarrow> error + Image list" where
  "images_of [] = Inr []"
| "images_of (ArgImage im # rest) =
     (case images_of rest of Inl e \<Rightarrow> Inl e | Inr ims \<Rightarrow> Inr (im # ims))"
| "images_of (ArgSeq ims # rest) = Inl AttributeError"

text \<open>
  The loop of \<open>hcat\<close> (lines 51 to 57), with the accumulators \<open>combo\<close> and \<open>u\<close>. The
  source's \<open>height\<close> and \<open>image\<close> are written \<open>height'\<close> and \<open>img\<close>.
\<close>

fun hcat_loop ::
  "nat \<Rightarrow> real \<Rightarrow> Image list \<Rightarrow> ndarray \<Rightarrow> nat list \<Rightarrow> error + (ndarray \<times> nat list)" where
  "hcat_loop height' pad [] combo u = Inr (combo, u)"
| "hcat_loop height' pad (img # images) combo u =
     (case (if height img < height'
            then np_pad (A img) ((0, height' - height img), (0, 0)) (pad, 0)
            else Inr (A img)) of
        Inl e \<Rightarrow> Inl e
      | Inr img' \<Rightarrow>
          (case np_hstack combo img' of
             Inl e \<Rightarrow> Inl e
           | Inr combo' \<Rightarrow> hcat_loop height' pad images combo' (u @ [arr_w combo])))"

text \<open>
  \<open>pos[0]\<close> of no arguments raises \<open>IndexError\<close>, \<open>max\<close> of no heights raises
  \<open>ValueError\<close>. \<open>cls(combo)\<close> gives no colour order.
\<close>

definition hcat :: "hcat_arg list \<Rightarrow> real \<Rightarrow> error + (Image \<times> nat list)" where
  "hcat pos pad =
     (case pos of
        [] \<Rightarrow> Inl IndexError
      | p0 # rest \<Rightarrow>
          (case (case p0 of ArgSeq ims \<Rightarrow> Inr ims | ArgImage im \<Rightarrow> images_of pos) of
             Inl e \<Rightarrow> Inl e
           | Inr images \<Rightarrow>
               if images = [] then Inl ValueError
               else
                 let height' = Max (set (map height images));
                     combo = np_empty2 height' 0
                 in case hcat_loop height' pad images combo [] of
                      Inl e \<Rightarrow> Inl e
                    | Inr (combo', u) \<Rightarrow> Inr (\<lparr>A = combo', colororder = None\<rparr>, u)))"

text \<open>
  The method \<open>pad(self, left=0, right=0, top=0, bottom=0, value=0)\<close> of the same class,
  which passes \<open>(value, value)\<close> as the constants.
\<close>

definition Image_pad :: "Image \<Rightarrow> nat \<Rightarrow> nat \<Rightarrow> nat \<Rightarrow> nat \<Rightarrow> real \<Rightarrow> error + Image" where
  "Image_pad self n_left n_right n_top n_bottom v =
     (case np_pad (A self) ((n_top, n_bottom), (n_left, n_right)) (v, v) of
        Inl e \<Rightarrow> Inl e
      | Inr out \<Rightarrow> Inr \<lparr>A = out, colororder = None\<rparr>)"

section \<open>ImageReshape.py: Tile\<close>

text \<open>
  Modelled from the spec: \<open>Image.Constant\<close>, \<open>colorize\<close> and \<open>paste\<close> are methods of
  the toolbox that are not among the sources. The canvas is kept as the record of what
  \<open>Tile\<close> asked of them: the two sizes, the value and the dtype given to \<open>Constant\<close> (its first positional
  argument is the width, its second the height), the colour order given to \<open>colorize\<close> if
  it was called, and the tiles pasted so far, in order, each with the position \<open>(u, v)\<close>
  given to \<open>paste\<close> (always with the arguments \<open>'set'\<close> and \<open>'topleft'\<close>).
\<close>

record canvas =
  cnv_width :: int
  cnv_height :: int
  cnv_value :: real
  cnv_dtype :: string
  cnv_colorized :: "string option option"
  cnv_pasted :: "(Image \<times> int \<times> int) list"

definition Constant :: "int \<Rightarrow> int \<Rightarrow> real \<Rightarrow> string \<Rightarrow> canvas" where
  "Constant w h v dt =
     \<lparr>cnv_width = w, cnv_height = h, cnv_value = v, cnv_dtype = dt,
      cnv_colorized = None, cnv_pasted = []\<rparr>"

definition colorize :: "canvas \<Rightarrow> string option \<Rightarrow> canvas" where
  "colorize canvas co = canvas\<lparr>cnv_colorized := Some co\<rparr>"

definition paste :: "canvas \<Rightarrow> Image \<Rightarrow> int \<times> int \<Rightarrow> canvas" where
  "paste canvas im pt = canvas\<lparr>cnv_pasted := cnv_pasted canvas @ [(im, fst pt, snd pt)]\<rparr>"

text \<open>Lines 69 to 73: every further tile has the shape and the dtype of the first.\<close>

fun check_tiles :: "nat list \<Rightarrow> string \<Rightarrow> Image list \<Rightarrow> error option" where
  "check_tiles shape0 dtype0 [] = None"
| "check_tiles shape0 dtype0 (tile # rest) =
     (if shape (A tile) \<noteq> shape0 then Some ValueError
      else if arr_dtype (A tile) \<noteq> dtype0 then Some ValueError
      else check_tiles shape0 dtype0 rest)"

text \<open>
  The inner loop \<open>for c in range(columns)\<close> (lines 87 to 94), by the number of
  iterations left. \<open>tiles.pop(0)\<close> on the empty list raises \<open>IndexError\<close>, which ends
  the loop. The list of tiles is mutated, so it is passed in and returned.
\<close>

fun tile_row ::
  "nat \<Rightarrow> int \<Rightarrow> int \<Rightarrow> int \<Rightarrow> int \<Rightarrow> Image list \<Rightarrow> canvas \<Rightarrow> Image list \<times> canvas" where
  "tile_row 0 sep w u v tiles canvas = (tiles, canvas)"
| "tile_row (Suc c) sep w u v [] canvas = ([], canvas)"
| "tile_row (Suc c) sep w u v (im # tiles) canvas =
     tile_row c sep w (u + (w + sep)) v tiles (paste canvas im (u, v))"

text \<open>
  The outer loop \<open>while len(tiles) > 0\<close> (lines 85 to 95). It need not end: with no
  columns nothing is ever popped. Not returning is the value \<open>None\<close>.
\<close>

partial_function (option) tile_rows ::
  "int \<Rightarrow> int \<Rightarrow> int \<Rightarrow> int \<Rightarrow> int \<Rightarrow> Image list \<Rightarrow> canvas \<Rightarrow> (Image list \<times> canvas) option" where
  "tile_rows columns sep w h v tiles canvas =
     (if length tiles > 0 then
        (case tile_row (nat columns) sep w sep v tiles canvas of
           (tiles', canvas') \<Rightarrow> tile_rows columns sep w h (v + (h + sep)) tiles' canvas')
      else Some (tiles, canvas))"

text \<open>
  \<open>Tile(cls, tiles, columns=4, sep=2, bgcolor=0)\<close>. The result is the list \<open>tiles\<close> as
  the call leaves it, and the canvas or the exception. \<open>tiles[0]\<close> of the empty list
  raises \<open>IndexError\<close>; \<open>len(tiles) / columns\<close> raises \<open>ZeroDivisionError\<close> for no
  columns.
\<close>

definition Tile ::
  "Image list \<Rightarrow> int \<Rightarrow> int \<Rightarrow> real \<Rightarrow> (Image list \<times> (error + canvas)) option" where
  "Tile tiles columns sep bgcolor =
     (case tiles of
        [] \<Rightarrow> Some (tiles, Inl IndexError)
      | tile0 # rest \<Rightarrow>
          let shape0 = shape (A tile0);
              colororder0 = colororder tile0
          in case check_tiles shape0 (arr_dtype (A tile0)) rest of
               Some e \<Rightarrow> Some (tiles, Inl e)
             | None \<Rightarrow>
                 if columns = 0 then Some (tiles, Inl ZeroDivisionError)
                 else
                   let nrows = \<lceil>real (length tiles) / real_of_int columns\<rceil>;
                       canvas0 = Constant
                         (columns * int (shape0 ! 1) + (columns + 1) * sep)
                         (nrows * int (shape0 ! 0) + (nrows + 1) * sep)
                         bgcolor (arr_dtype (A tile0));
                       canvas1 = (if length shape0 = 3
                                  then colorize canvas0 colororder0 else canvas0)
                   in case tile_rows columns sep (int (shape0 ! 1)) (int (shape0 ! 0))
                             sep tiles canvas1 of
                        None \<Rightarrow> None
                      | Some (tiles', canvas') \<Rightarrow> Some (tiles', Inr canvas'))"

text \<open>
  Where the \<open>i\<close>-th of the tiles is pasted when the rows start at height \<open>v\<close> and hold
  \<open>c\<close> tiles each.
\<close>

definition layout ::
  "nat \<Rightarrow> int \<Rightarrow> int \<Rightarrow> int \<Rightarrow> int \<Rightarrow> Image list \<Rightarrow> (Image \<times> int \<times> int) list" where
  "layout c sep w h v tiles =
     map (\<lambda>i. (tiles ! i, sep + int (i mod c) * (w + sep), v + int (i div c) * (h + sep)))
       [0..<length tiles]"

section \<open>ImageReshape.py: rotate\<close>

text \<open>\<open>np.degrees\<close>: radians to degrees.\<close>

definition np_degrees :: "real \<Rightarrow> real" where
  "np_degrees x = x * 180 / pi"

text \<open>
  Lines 375 to 378: the centre defaults to the middle of the image, and a centre that is
  given must have two items.
\<close>

definition rotate_centre :: "Image \<Rightarrow> real list option \<Rightarrow> error + real list" where
  "rotate_centre self centre =
     (case centre of
        None \<Rightarrow> Inr [real (width self) / 2, real (height self) / 2]
      | Some c \<Rightarrow> if length c \<noteq> 2 then Inl ValueError else Inr c)"

text \<open>
  \<open>rotate(self, angle, crop=False, centre=None)\<close>. The source's \<open>shape\<close> is written
  \<open>shape'\<close>.
\<close>

definition rotate ::
  "cvlib \<Rightarrow> Image \<Rightarrow> pyval \<Rightarrow> pyval \<Rightarrow> real list option \<Rightarrow> error + Image" where
  "rotate cv self angle crop centre =
     (if \<not> isscalar angle then Inl ValueError
      else
        case rotate_centre self centre of
          Inl e \<Rightarrow> Inl e
        | Inr centre' \<Rightarrow>
            let shape' = (width self, height self)
            in case getRotationMatrix2D cv centre' (np_degrees (num angle)) 1 of
                 Inl e \<Rightarrow> Inl e
               | Inr M \<Rightarrow>
                   (case warpAffine cv (A self) M shape' of
                      Inl e \<Rightarrow> Inl e
                    | Inr out \<Rightarrow> Inr \<lparr>A = out, colororder = colororder self\<rparr>))"

text \<open>
  What the specification says of \<open>rotate\<close>, in its words, to be compared with the
  function above: the affine matrix is the library's rotation matrix for the centre
  (by default the middle of the image), the angle in degrees and the scale 1; the output
  is that matrix applied by \<open>warpAffine\<close> to the pixel array, at the size of the image;
  nothing else of the image changes.
\<close>

definition rotate_spec :: "cvlib \<Rightarrow> Image \<Rightarrow> real \<Rightarrow> real list option \<Rightarrow> error + Image" where
  "rotate_spec cv self angle centre =
     (case getRotationMatrix2D cv
             (case centre of
                None \<Rightarrow> [real (width self) / 2, real (height self) / 2]
              | Some c \<Rightarrow> c)
             (angle * 180 / pi) 1 of
        Inl e \<Rightarrow> Inl e
      | Inr M \<Rightarrow>
          (case warpAffine cv (A self) M (width self, height self) of
             Inl e \<Rightarrow> Inl e
           | Inr out \<Rightarrow> Inr (self\<lparr>A := out\<rparr>)))"

section \<open>base/graphics.py\<close>

text \<open>
  A position handed on to \<open>cv.putText\<close> is a pair of numbers, each given by the real
  number it stands for. A corner, a centre or a width and height of \<open>draw_box\<close> is a
  pair of Python numbers, which the function adds, subtracts and halves. The bounding box
  \<open>bbox\<close> is a 2 by 2 matrix, given by its rows.
\<close>

type_synonym point = "real \<times> real"

type_synonym corner = "pynum \<times> pynum"

text \<open>
  A tuple \<open>(x, y)\<close> of two expressions: \<open>x\<close> is evaluated first, so an exception of
  \<open>x\<close> is the one raised.
\<close>

definition both :: "error + 'a \<Rightarrow> error + 'b \<Rightarrow> error + 'a \<times> 'b" where
  "both x y =
     (case x of
        Inl e \<Rightarrow> Inl e
      | Inr a \<Rightarrow> (case y of Inl e \<Rightarrow> Inl e | Inr b \<Rightarrow> Inr (a, b)))"

text \<open>\<open>c - v / 2\<close> and \<open>c + v / 2\<close>: the division first.\<close>

definition sub_half :: "pynum \<Rightarrow> pynum \<Rightarrow> error + pynum" where
  "sub_half c v = (case py_truediv v (PyI 2) of Inl e \<Rightarrow> Inl e | Inr q \<Rightarrow> py_sub c q)"

definition add_half :: "pynum \<Rightarrow> pynum \<Rightarrow> error + pynum" where
  "add_half c v = (case py_truediv v (PyI 2) of Inl e \<Rightarrow> Inl e | Inr q \<Rightarrow> py_add c q)"

text \<open>
  Lines 58 to 84 of \<open>draw_box\<close>: the corners \<open>bl\<close> and \<open>tr\<close> after the chain of
  \<open>if\<close> and \<open>elif\<close>, from \<open>bbox\<close>, \<open>bl\<close>, \<open>tl\<close>, \<open>tr\<close>, \<open>wh\<close> and
  \<open>centre\<close> (\<open>br\<close> is never read). Each branch asks of each of the five whether it is
  \<open>None\<close>; when no branch applies, \<open>bl\<close> and \<open>tr\<close> stay as they were given. The
  arithmetic is Python's: exact on ints, rounded on floats, and it raises
  \<open>OverflowError\<close> for an \<open>int\<close> too large for the float it meets.
\<close>

fun box_corners ::
  "((pynum \<times> pynum) \<times> (pynum \<times> pynum)) option \<Rightarrow> corner option \<Rightarrow> corner option
     \<Rightarrow> corner option \<Rightarrow> corner option \<Rightarrow> corner option
     \<Rightarrow> error + (corner option \<times> corner option)" where
  "box_corners (Some ((b00, b01), (b10, b11))) bl tl' tr wh centre =
     Inr (Some (b00, b10), Some (b01, b11))"
| "box_corners None (Some bl) None None (Some (w, h)) None =
     (case both (py_add (fst bl) w) (py_add (snd bl) h) of
        Inl e \<Rightarrow> Inl e
      | Inr tr \<Rightarrow> Inr (Some bl, Some tr))"
| "box_corners None (Some bl) None (Some tr) None None =
     Inr (Some bl, Some tr)"
| "box_corners None None None None (Some (w, h)) (Some centre) =
     (case both (both (sub_half (fst centre) w) (sub_half (snd centre) h))
                (both (add_half (fst centre) w) (add_half (snd centre) h)) of
        Inl e \<Rightarrow> Inl e
      | Inr (bl, tr) \<Rightarrow> Inr (Some bl, Some tr))"
| "box_corners None None None (Some tr) (Some (w, h)) None =
     (case both (py_sub (fst tr) w) (py_sub (snd tr) h) of
        Inl e \<Rightarrow> Inl e
      | Inr bl \<Rightarrow> Inr (Some bl, Some tr))"
| "box_corners None None (Some tl') None (Some (w, h)) None =
     (case both (py_sub (snd tl') h) (py_add (fst tl') w) of
        Inl e \<Rightarrow> Inl e
      | Inr (y, x) \<Rightarrow> Inr (Some (fst tl', y), Some (x, snd tl')))"
| "box_corners None bl tl' tr wh centre = Inr (bl, tr)"

text \<open>\<open>tuple([int(x) for x in p])\<close>.\<close>

definition int_corner :: "corner \<Rightarrow> error + int \<times> int" where
  "int_corner p = both (py_int (fst p)) (py_int (snd p))"

text \<open>
  \<open>draw_box\<close>. The image is drawn into, so the function returns the array as it leaves
  it, beside the corners or the exception. \<open>len(color)\<close> of a number raises
  \<open>TypeError\<close>, and so does the iteration over a corner that is still \<open>None\<close>.
\<close>

definition draw_box ::
  "cvlib \<Rightarrow> toolbox \<Rightarrow> ndarray \<Rightarrow> ((pynum \<times> pynum) \<times> (pynum \<times> pynum)) option
     \<Rightarrow> corner option \<Rightarrow> corner option \<Rightarrow> corner option \<Rightarrow> corner option \<Rightarrow> corner option
     \<Rightarrow> corner option \<Rightarrow> pyval \<Rightarrow> pyval \<Rightarrow> pyval \<Rightarrow> int
     \<Rightarrow> ndarray \<times> (error + (int \<times> int) \<times> (int \<times> int))" where
  "draw_box cv tb img bbox bl tl' br tr wh centre color fillcolor alpha thickness =
     (if \<not> isinstance_int color \<and> length (shape img) = 2 then (img, Inl TypeError)
      else
        case box_corners bbox bl tl' tr wh centre of
          Inl e \<Rightarrow> (img, Inl e)
        | Inr (bl1, tr1) \<Rightarrow>
            (case (if fillcolor \<noteq> PyNone then (fillcolor, - 1) else (color, thickness)) of
               (color1, thickness1) \<Rightarrow>
                 (case (case color1 of PyStr s \<Rightarrow> color_bgr tb s | _ \<Rightarrow> Inr color1) of
                    Inl e \<Rightarrow> (img, Inl e)
                  | Inr color2 \<Rightarrow>
                      (case (if color2 \<noteq> PyNone then
                               (case py_len color2 of
                                  Inl e \<Rightarrow> Inl e
                                | Inr n \<Rightarrow> Inr (if n = 3 then py_reversed color2 else color2))
                             else Inr color2) of
                         Inl e \<Rightarrow> (img, Inl e)
                       | Inr color3 \<Rightarrow>
                           (case bl1 of
                              None \<Rightarrow> (img, Inl TypeError)
                            | Some bl2 \<Rightarrow>
                                (case int_corner bl2 of
                                   Inl e \<Rightarrow> (img, Inl e)
                                 | Inr bl3 \<Rightarrow>
                                     (case tr1 of
                                        None \<Rightarrow> (img, Inl TypeError)
                                      | Some tr2 \<Rightarrow>
                                          (case int_corner tr2 of
                                             Inl e \<Rightarrow> (img, Inl e)
                                           | Inr tr3 \<Rightarrow>
                                               (case rectangle cv img bl3 tr3 color3
                                                       thickness1 of
                                                  Inl e \<Rightarrow> (img, Inl e)
                                                | Inr img' \<Rightarrow>
                                                    (img', Inr (bl3, tr3)))))))))))"

text \<open>\<open>draw_text\<close>.\<close>

definition draw_text ::
  "cvlib \<Rightarrow> toolbox \<Rightarrow> ndarray \<Rightarrow> point \<Rightarrow> string option \<Rightarrow> pyval \<Rightarrow> int \<Rightarrow> real \<Rightarrow> int
     \<Rightarrow> ndarray \<times> (error + unit)" where
  "draw_text cv tb img pos text color font fontsize fontthickness =
     (if \<not> isinstance_int color \<and> length (shape img) = 2 then (img, Inl TypeError)
      else
        case (case color of PyStr s \<Rightarrow> color_bgr tb s | _ \<Rightarrow> Inr color) of
          Inl e \<Rightarrow> (img, Inl e)
        | Inr color' \<Rightarrow>
            (case putText cv img text pos font fontsize color' fontthickness of
               Inl e \<Rightarrow> (img, Inl e)
             | Inr img' \<Rightarrow> (img', Inr ())))"

text \<open>
  The \<open>pos\<close> argument of \<open>draw_point\<close>: a 2-dimensional array given by its rows, a
  tuple or list, or anything else.
\<close>

datatype pos_arg = PosArray "real list list" | PosSeq "pos_item list" | PosOther

text \<open>\<open>z[i]\<close> for an item, and \<open>[z[i] for z in pos]\<close>.\<close>

fun item_get :: "pos_item \<Rightarrow> nat \<Rightarrow> error + real" where
  "item_get (ItemNum x) i = Inl TypeError"
| "item_get (ItemSeq zs) i = (if i < length zs then Inr (zs ! i) else Inl IndexError)"

fun items_get :: "pos_item list \<Rightarrow> nat \<Rightarrow> error + real list" where
  "items_get [] i = Inr []"
| "items_get (z # rest) i =
     (case item_get z i of
        Inl e \<Rightarrow> Inl e
      | Inr x \<Rightarrow> (case items_get rest i of Inl e \<Rightarrow> Inl e | Inr xs \<Rightarrow> Inr (x # xs)))"

text \<open>
  Lines 234 to 243 of \<open>draw_point\<close>: the values of \<open>x\<close> and \<open>y\<close>, or \<open>None\<close> when
  no branch binds them.
\<close>

definition point_xy :: "toolbox \<Rightarrow> pos_arg \<Rightarrow> error + (pos_item \<times> pos_item) option" where
  "point_xy tb pos =
     (case pos of
        PosArray rows \<Rightarrow>
          (if length rows = 2 then Inr (Some (ItemSeq (rows ! 0), ItemSeq (rows ! 1)))
           else Inr None)
      | PosSeq items \<Rightarrow>
          (if islistof_seq tb items then
             (case items_get items 0 of
                Inl e \<Rightarrow> Inl e
              | Inr x \<Rightarrow>
                  (case items_get items 1 of
                     Inl e \<Rightarrow> Inl e
                   | Inr y \<Rightarrow> Inr (Some (ItemSeq x, ItemSeq y))))
           else if length items < 2 then Inl IndexError
           else Inr (Some (items ! 0, items ! 1)))
      | PosOther \<Rightarrow> Inr None)"

text \<open>\<open>zip(x, y)\<close>: a number is not iterable.\<close>

fun py_zip :: "pos_item \<Rightarrow> pos_item \<Rightarrow> error + (real \<times> real) list" where
  "py_zip (ItemSeq xs) (ItemSeq ys) = Inr (zip xs ys)"
| "py_zip x y = Inl TypeError"

text \<open>The loop of \<open>draw_point\<close> (lines 248 to 252), from index \<open>i\<close> on.\<close>

fun draw_point_loop ::
  "cvlib \<Rightarrow> toolbox \<Rightarrow> string \<Rightarrow> string option \<Rightarrow> pyval \<Rightarrow> int \<Rightarrow> real \<Rightarrow> int
     \<Rightarrow> nat \<Rightarrow> (real \<times> real) list \<Rightarrow> ndarray \<Rightarrow> ndarray \<times> (error + unit)" where
  "draw_point_loop cv tb marker text color font fontsize fontthickness i [] img =
     (img, Inr ())"
| "draw_point_loop cv tb marker text color font fontsize fontthickness i (xy # rest) img =
     (let s = (case text of
                 None \<Rightarrow> marker
               | Some t \<Rightarrow> if t = [] then marker else marker @ '' '' @ str_format tb t i)
      in case putText cv img (Some s) xy font fontsize color fontthickness of
           Inl e \<Rightarrow> (img, Inl e)
         | Inr img' \<Rightarrow>
             draw_point_loop cv tb marker text color font fontsize fontthickness
               (Suc i) rest img')"

text \<open>\<open>draw_point\<close>.\<close>

definition draw_point ::
  "cvlib \<Rightarrow> toolbox \<Rightarrow> ndarray \<Rightarrow> pos_arg \<Rightarrow> string \<Rightarrow> string option \<Rightarrow> pyval \<Rightarrow> int \<Rightarrow> real
     \<Rightarrow> int \<Rightarrow> ndarray \<times> (error + unit)" where
  "draw_point cv tb img pos marker text color font fontsize fontthickness =
     (if \<not> isinstance_int color \<and> length (shape img) = 2 then (img, Inl TypeError)
      else
        case point_xy tb pos of
          Inl e \<Rightarrow> (img, Inl e)
        | Inr xy \<Rightarrow>
            (case (case color of PyStr s \<Rightarrow> color_bgr tb s | _ \<Rightarrow> Inr color) of
               Inl e \<Rightarrow> (img, Inl e)
             | Inr color' \<Rightarrow>
                 (case xy of
                    None \<Rightarrow> (img, Inl UnboundLocalError)
                  | Some (x, y) \<Rightarrow>
                      (case py_zip x y of
                         Inl e \<Rightarrow> (img, Inl e)
                       | Inr pts \<Rightarrow>
                           draw_point_loop cv tb marker text color' font fontsize
                             fontthickness 0 pts img))))"

text \<open>
  The names bound at the top level of \<open>graphics.py\<close> by its imports and its function
  definitions, and the builtins the module uses. A name that a function never assigns is
  looked up among the module's globals and then among the builtins, none of which is
  named \<open>color\<close>; a module or a function is an object of no further interest here.
\<close>

definition module_globals :: "string list" where
  "module_globals =
     [''cv'', ''base'', ''ANSITable'', ''Column'', ''color_bgr'', ''plt'', ''np'',
      ''draw_box'', ''plot_labelbox'', ''draw_labelbox'', ''draw_text'', ''draw_point'']"

definition builtins_used :: "string list" where
  "builtins_used =
     [''isinstance'', ''int'', ''str'', ''len'', ''tuple'', ''list'', ''dict'', ''round'',
      ''enumerate'', ''zip'', ''TypeError'']"

definition load_global :: "string \<Rightarrow> error + pyval" where
  "load_global name =
     (if name \<in> set module_globals then Inr PyObject
      else if name \<in> set builtins_used then Inr PyObject
      else Inl NameError)"

text \<open>
  The keyword arguments \<open>**kwargs\<close> of \<open>draw_labelbox\<close> that \<open>draw_box\<close> knows.
  \<open>kw_color = None\<close> says that no \<open>color\<close> was given, so that \<open>kwargs['color']\<close>
  raises \<open>KeyError\<close>.
\<close>

record box_kwargs =
  kw_bbox :: "((pynum \<times> pynum) \<times> (pynum \<times> pynum)) option"
  kw_bl :: "corner option"
  kw_tl :: "corner option"
  kw_br :: "corner option"
  kw_tr :: "corner option"
  kw_wh :: "corner option"
  kw_centre :: "corner option"
  kw_color :: "pyval option"
  kw_fillcolor :: pyval
  kw_alpha :: pyval
  kw_thickness :: int

text \<open>\<open>round(n / k)\<close> for two ints.\<close>

definition round_div :: "int \<Rightarrow> int \<Rightarrow> error + int" where
  "round_div n k =
     (case py_truediv (PyI n) (PyI k) of Inl e \<Rightarrow> Inl e | Inr q \<Rightarrow> py_round_num q)"

text \<open>
  \<open>draw_labelbox\<close>. Its parameters are \<open>image\<close>, \<open>text\<close>, \<open>textcolor\<close>,
  \<open>font\<close>, \<open>fontsize\<close>, \<open>fontthickness\<close> and \<open>kwargs\<close>, and it assigns \<open>twh\<close>,
  \<open>bl\<close>, \<open>tr\<close>, \<open>h\<close> and \<open>h2\<close>: the name \<open>color\<close> of its first line is none of
  them, so it is looked up as a global.
\<close>

definition draw_labelbox ::
  "cvlib \<Rightarrow> toolbox \<Rightarrow> ndarray \<Rightarrow> string \<Rightarrow> pyval \<Rightarrow> int \<Rightarrow> real \<Rightarrow> int \<Rightarrow> box_kwargs
     \<Rightarrow> ndarray \<times> (error + unit)" where
  "draw_labelbox cv tb img text textcolor font fontsize fontthickness kwargs =
     (case load_global ''color'' of
        Inl e \<Rightarrow> (img, Inl e)
      | Inr color \<Rightarrow>
          if \<not> isinstance_int color \<and> length (shape img) = 2 then (img, Inl TypeError)
          else
            case getTextSize cv text font fontsize fontthickness of
              Inl e \<Rightarrow> (img, Inl e)
            | Inr twh \<Rightarrow>
                (case draw_box cv tb img (kw_bbox kwargs) (kw_bl kwargs) (kw_tl kwargs)
                        (kw_br kwargs) (kw_tr kwargs) (kw_wh kwargs) (kw_centre kwargs)
                        (case kw_color kwargs of None \<Rightarrow> PyNone | Some c \<Rightarrow> c)
                        (kw_fillcolor kwargs) (kw_alpha kwargs) (kw_thickness kwargs) of
                   (img1, Inl e) \<Rightarrow> (img1, Inl e)
                 | (img1, Inr (bl, tr)) \<Rightarrow>
                     (case both (round_div (snd (fst twh)) 2) (round_div (snd (fst twh)) 4) of
                        Inl e \<Rightarrow> (img1, Inl e)
                      | Inr (h, h2) \<Rightarrow>
                          (case kw_color kwargs of
                             None \<Rightarrow> (img1, Inl KeyError)
                           | Some c \<Rightarrow>
                               (case draw_box cv tb img1 None None
                                       (Some (PyI (fst bl), PyI (snd bl))) None None
                                       (Some (PyI (fst (fst twh) + h),
                                              PyI (snd (fst twh) + h)))
                                       None PyNone c PyNone 1 of
                                  (img2, Inl e) \<Rightarrow> (img2, Inl e)
                                | (img2, Inr r) \<Rightarrow>
                                    draw_text cv tb img2
                                      (of_int (fst bl + h2), of_int (snd bl - h2))
                                      (Some text) textcolor font fontsize fontthickness)))))"

text \<open>
  The difference \<open>tr - bl\<close> of two corners as real numbers, for stating what the corner
  modes share: it is defined when both corners were computed and all four coordinates are
  finite.
\<close>

definition extent :: "error + (corner option \<times> corner option) \<Rightarrow> (real \<times> real) option" where
  "extent c =
     (case c of
        Inr (Some bl, Some tr) \<Rightarrow>
          (case (num_val (fst tr), num_val (fst bl), num_val (snd tr), num_val (snd bl)) of
             (Some x1, Some x0, Some y1, Some y0) \<Rightarrow> Some (x1 - x0, y1 - y0)
           | _ \<Rightarrow> None)
      | _ \<Rightarrow> None)"

section \<open>Stand-ins for the libraries, and example images\<close>

text \<open>
  The theorems below hold for every \<open>cvlib\<close> and every \<open>toolbox\<close>. The examples need a
  concrete one: a nearest-neighbour \<open>resize\<close> whose output has \<open>fy * rows\<close> rows and
  \<open>fx * cols\<close> columns, rounded with ties to even, and which rejects an empty source
  or target, as OpenCV's does; a \<open>warpAffine\<close> whose output has the size it is
  asked for; drawing routines that overwrite every pixel, so that a call leaves a trace.
\<close>

definition resize_nearest :: "ndarray \<Rightarrow> real \<Rightarrow> real \<Rightarrow> interp \<Rightarrow> error + ndarray" where
  "resize_nearest src fx fy ip =
     (let h = nat (py_round (fy * real (arr_h src)));
          w = nat (py_round (fx * real (arr_w src)))
      in if arr_h src = 0 \<or> arr_w src = 0 \<or> h = 0 \<or> w = 0 then Inl CvError
         else Inr (src\<lparr>arr_h := h, arr_w := w,
                arr_data := map (\<lambda>i. map (\<lambda>j.
                    arr_data src ! min (arr_h src - 1) (nat \<lfloor>real i / fy\<rfloor>)
                                 ! min (arr_w src - 1) (nat \<lfloor>real j / fx\<rfloor>)) [0..<w]) [0..<h]\<rparr>))"

definition paint :: "ndarray \<Rightarrow> ndarray" where
  "paint a = a\<lparr>arr_data := map (map (map (\<lambda>v. 255))) (arr_data a)\<rparr>"

definition demo_cv :: cvlib where
  "demo_cv =
     \<lparr>resize = resize_nearest,
      getRotationMatrix2D = (\<lambda>c ang s. Inr [[s, 0, 0], [0, s, 0]]),
      warpAffine = (\<lambda>src M dsize.
         if arr_h src = 0 \<or> arr_w src = 0 then Inl CvError
         else Inr (src\<lparr>arr_h := snd dsize, arr_w := fst dsize,
                arr_data := replicate (snd dsize) (replicate (fst dsize)
                  (case arr_planes src of None \<Rightarrow> [0] | Some p \<Rightarrow> replicate p 0))\<rparr>)),
      rectangle = (\<lambda>img p q c t. Inr (paint img)),
      putText = (\<lambda>img s p f fs c t. Inr (paint img)),
      getTextSize = (\<lambda>s f fs t. Inr ((10 * int (length s), 10), 4))\<rparr>"

definition demo_tb :: toolbox where
  "demo_tb =
     \<lparr>smooth = (\<lambda>im s. Inr im),
      color_bgr = (\<lambda>s. if s = ''red'' then Inr (PySeq [0, 0, 255]) else Inl ValueError),
      islistof_seq = list_all (\<lambda>z. case z of ItemSeq zs \<Rightarrow> True | ItemNum x \<Rightarrow> False),
      str_format = (\<lambda>s i. s)\<rparr>"

text \<open>A colour image of 2 rows and 2 columns.\<close>

definition rgb2 :: Image where
  "rgb2 =
     \<lparr>A = \<lparr>arr_h = 2, arr_w = 2, arr_planes = Some 3, arr_dtype = ''uint8'',
            arr_data = [[[1, 2, 3], [4, 5, 6]], [[7, 8, 9], [10, 11, 12]]]\<rparr>,
      colororder = Some ''RGB''\<rparr>"

text \<open>A colour image of \<open>h\<close> rows and \<open>w\<close> columns, every pixel the same.\<close>

definition rgb :: "nat \<Rightarrow> nat \<Rightarrow> Image" where
  "rgb h w =
     \<lparr>A = \<lparr>arr_h = h, arr_w = w, arr_planes = Some 3, arr_dtype = ''uint8'',
            arr_data = replicate h (replicate w [10, 20, 30])\<rparr>,
      colororder = Some ''RGB''\<rparr>"

text \<open>A greyscale image given by its rows (at least one).\<close>

definition grey :: "real list list \<Rightarrow> Image" where
  "grey rows =
     \<lparr>A = \<lparr>arr_h = length rows, arr_w = length (hd rows), arr_planes = None,
            arr_dtype = ''uint8'', arr_data = map (map (\<lambda>v. [v])) rows\<rparr>,
      colororder = None\<rparr>"

section \<open>Properties of the numbers\<close>

lemma py_round_of_int: "py_round (of_int n) = n"
  by (simp add: py_round_def)

text \<open>
  A value \<open>m * 2^j\<close> with \<open>m\<close> of at most 53 bits and \<open>j\<close> no less than \<open>-1074\<close> is
  a double, up to the largest: rounding leaves it as it is.
\<close>

lemma ulp_exp_le:
  assumes "x = of_int m * 2 powr of_int j" and "\<bar>m\<bar> < 2 ^ 53" and "- 1074 \<le> j" and "x \<noteq> 0"
  shows "ulp_exp x \<le> j"
proof -
  have "\<bar>x\<bar> = of_int \<bar>m\<bar> * 2 powr of_int j"
    by (simp add: assms(1) abs_mult)
  also have "\<dots> < 2 ^ 53 * 2 powr of_int j"
  proof -
    have "(of_int \<bar>m\<bar> :: real) < of_int (2 ^ 53)"
      using assms(2) by (simp only: of_int_less_iff)
    then show ?thesis by (simp add: mult_strict_right_mono)
  qed
  also have "\<dots> = 2 powr (of_int (j + 53))"
    by (simp add: powr_add powr_realpow [symmetric])
  finally have lt: "\<bar>x\<bar> < 2 powr of_int (j + 53)" .
  have "log 2 \<bar>x\<bar> < of_int (j + 53)"
    using lt assms(4) by (simp add: log_less_iff del: of_int_add)
  then have "\<lfloor>log 2 \<bar>x\<bar>\<rfloor> < j + 53" by (simp add: floor_less_iff)
  then show ?thesis using assms(3) by (simp add: ulp_exp_def)
qed

lemma round_double_exact:
  assumes "x = of_int m * 2 powr of_int j" and "\<bar>m\<bar> < 2 ^ 53" and "- 1074 \<le> j"
  shows "round_double x = x"
proof (cases "x = 0")
  case True
  then show ?thesis by (simp add: round_double_def)
next
  case False
  define u where "u = ulp_exp x"
  have le: "u \<le> j" unfolding u_def using ulp_exp_le [OF assms False] .
  define k where "k = nat (j - u)"
  have j: "j = u + int k" using le by (simp add: k_def)
  have "x / 2 powr of_int u = of_int m * (2 powr of_int j / 2 powr of_int u)"
    by (simp add: assms(1))
  also have "2 powr of_int j / 2 powr of_int u = (2::real) ^ k"
    by (simp add: j powr_add powr_realpow)
  finally have "x / 2 powr of_int u = of_int (m * 2 ^ k)" by simp
  then have "of_int (py_round (x / 2 powr of_int u)) * 2 powr of_int u
      = of_int (m * 2 ^ k) * 2 powr of_int u"
    by (simp only: py_round_of_int)
  also have "\<dots> = x"
    by (simp add: assms(1) j powr_add powr_realpow)
  finally show ?thesis using False by (simp add: round_double_def u_def)
qed

lemma fl_exact:
  assumes "x = of_int m * 2 powr of_int j" and "\<bar>m\<bar> < 2 ^ 53" and "- 1074 \<le> j"
    and "\<bar>x\<bar> \<le> max_double"
  shows "fl x = Finite x"
  using round_double_exact [OF assms(1-3)] assms(4) by (auto simp: fl_def Let_def)

lemma fl_of_int:
  assumes "\<bar>i\<bar> < 2 ^ 53"
  shows "fl (of_int i) = Finite (of_int i)"
proof (rule fl_exact [where m = i and j = 0])
  show "real_of_int i = real_of_int i * 2 powr real_of_int 0" by simp
  show "\<bar>i\<bar> < 2 ^ 53" by fact
  show "- 1074 \<le> (0::int)" by simp
  have "\<bar>real_of_int i\<bar> < 2 ^ 53" using assms
    by (metis of_int_abs of_int_less_numeral_power_cancel_iff)
  then show "\<bar>real_of_int i\<bar> \<le> max_double" by (simp add: max_double_def)
qed

lemma fl_half_int:
  assumes "\<bar>i\<bar> < 2 ^ 53"
  shows "fl (of_int i / 2) = Finite (of_int i / 2)"
proof (rule fl_exact [where m = i and j = "- 1"])
  have "2 powr real_of_int (- 1) = (1 / 2 :: real)"
    by (simp add: powr_neg_one)
  then show "real_of_int i / 2 = real_of_int i * 2 powr real_of_int (- 1)"
    by simp
  show "\<bar>i\<bar> < 2 ^ 53" by fact
  show "- 1074 \<le> (- 1::int)" by simp
  have "\<bar>real_of_int i\<bar> < 2 ^ 53" using assms
    by (metis of_int_abs of_int_less_numeral_power_cancel_iff)
  then show "\<bar>real_of_int i / 2\<bar> \<le> max_double" by (simp add: max_double_def)
qed

lemma int_to_float_small:
  "\<bar>i\<bar> < 2 ^ 53 \<Longrightarrow> int_to_float i = Inr (Finite (of_int i))"
  by (simp add: int_to_float_def fl_of_int)

text \<open>
  A value that is not a double is rounded: \<open>2^53 + 1\<close> lies half way between two
  doubles and goes to the even one, \<open>2^53\<close>.
\<close>

lemma fl_2_53_plus_1: "fl 9007199254740993 = Finite 9007199254740992"
proof -
  have "\<lfloor>log 2 (9007199254740993::real)\<rfloor> = 53"
    by (subst floor_log_eq_powr_iff) (simp_all add: powr_realpow [symmetric] del: powr_numeral)
  then have u: "ulp_exp 9007199254740993 = 1"
    by (simp add: ulp_exp_def)
  have "py_round (9007199254740993 / 2) = 4503599627370496"
    by (simp add: py_round_def)
  then have "round_double 9007199254740993 = 9007199254740992"
    by (simp add: round_double_def u)
  then show ?thesis by (simp add: fl_def max_double_def)
qed

text \<open>
  The rounding of a value in the binade \<open>2^e\<close>, and two sums and products of the
  doubles nearest to 0.7 and 0.3, which are \<open>3152519739159347 / 2^52\<close> and
  \<open>5404319552844595 / 2^54\<close>: \<open>10 * 0.7\<close> is \<open>7.0\<close> and \<open>0.7 + 0.3\<close> is \<open>1.0\<close>,
  though the exact product and sum of the two doubles are less.
\<close>

lemma round_double_at:
  assumes "2 powr of_int e \<le> \<bar>x\<bar>" "\<bar>x\<bar> < 2 powr of_int (e + 1)" "- 1022 \<le> e"
  shows "round_double x
       = of_int (py_round (x / 2 powr of_int (e - 52))) * 2 powr of_int (e - 52)"
proof -
  have "(0::real) < 2 powr of_int e" by simp
  then have pos: "0 < \<bar>x\<bar>" using assms(1) by linarith
  then have "\<lfloor>log 2 \<bar>x\<bar>\<rfloor> = e"
    using assms(1,2) by (subst floor_log_eq_powr_iff) simp_all
  then have "ulp_exp x = e - 52" using assms(3) by (simp add: ulp_exp_def)
  then show ?thesis using pos by (simp add: round_double_def)
qed

lemma powr_neg_50_53:
  "2 powr (- 50) = (1 / 2 ^ 50 :: real)" "2 powr (- 53) = (1 / 2 ^ 53 :: real)"
  using powr_realpow [of "2 :: real" 50] powr_realpow [of "2 :: real" 53]
  by (simp_all add: powr_minus_divide)

lemma fl_10_times_07: "fl (10 * (3152519739159347 / 2 ^ 52)) = Finite 7"
proof -
  have "round_double (10 * (3152519739159347 / 2 ^ 52)) = 7"
    using round_double_at [of 2 "10 * (3152519739159347 / 2 ^ 52)"]
    by (simp add: powr_neg_50_53 py_round_def)
  then show ?thesis by (simp add: fl_def max_double_def)
qed

lemma fl_07_plus_03: "fl (3152519739159347 / 2 ^ 52 + 5404319552844595 / 2 ^ 54) = Finite 1"
proof -
  have "round_double (3152519739159347 / 2 ^ 52 + 5404319552844595 / 2 ^ 54) = 1"
    using round_double_at [of "- 1" "3152519739159347 / 2 ^ 52 + 5404319552844595 / 2 ^ 54"]
    by (simp add: powr_neg_50_53 py_round_def)
  then show ?thesis by (simp add: fl_def max_double_def)
qed

text \<open>Rounding never gives NaN, so a product of finite floats is not NaN.\<close>

lemma fl_not_NaN: "fl x \<noteq> NaN"
  by (simp add: fl_def Let_def)

text \<open>With a finite bias, the trimmed width is computed without \<open>ValueError\<close>.\<close>

lemma trim_first_no_ValueError: "trim_first d (Finite b) \<noteq> Inl ValueError"
proof (cases "int_to_float d")
  case (Inl e)
  then have "e = OverflowError"
    by (auto simp: int_to_float_def split: pyfloat.splits)
  with Inl show ?thesis by (simp add: trim_first_def)
next
  case (Inr f)
  then have "\<exists>a. f = Finite a"
    by (cases "fl (of_int d)") (auto simp: int_to_float_def)
  then obtain a where f: "f = Finite a" ..
  have "py_int (PyF (ffloor (fl (a * b)))) \<noteq> Inl ValueError"
    by (cases "fl (a * b)") (simp_all add: fl_not_NaN)
  with Inr f show ?thesis by (auto simp: trim_first_def split: sum.splits)
qed

text \<open>A bias that is not NaN and passes the check of \<open>samesize\<close> is finite.\<close>

lemma bias_in_range_finite:
  assumes "bias \<noteq> NaN" "\<not> flt bias (Finite 0)" "\<not> flt (Finite 1) bias"
  obtains b where "bias = Finite b"
  using assms by (cases bias) simp_all

section \<open>Properties of samesize\<close>

text \<open>
  Once rows have been trimmed, \<open>o\<close> is a bare array and the read of \<open>o.width\<close> fails:
  no call that trims rows returns an image.
\<close>

lemma samesize_cols_after_rows:
  "samesize_cols self (ArrayObj a) im2 bias = Inl AttributeError"
  by (simp add: samesize_cols_def)

text \<open>
  A call returns an image only if the scaled image is no higher than \<open>im2\<close> is wide, wider
  than \<open>im2\<close>, and a colour image.
\<close>

lemma samesize_returns_only_if:
  assumes "samesize cv tb self im2 bias = Inr out"
  shows "\<exists>scaled. scale cv tb self
             (PyFloat (max (np_true_divide (height im2) (arr_h (A self)))
                           (np_true_divide (width im2) (arr_w (A self))))) PyNone None
             InterpNone
           = Inr scaled
         \<and> height scaled \<le> width im2 \<and> width im2 < width scaled
         \<and> arr_planes (A scaled) \<noteq> None"
  using assms
  by (auto simp: samesize_def samesize_rows_def samesize_cols_def getitem_cols3_def Let_def
      split: if_splits sum.splits option.splits pyobj.splits)

text \<open>
  When the scaled image is neither higher nor wider than \<open>im2\<close> is wide, nothing is
  trimmed and the \<open>return\<close> statement finds \<open>out\<close> unbound.
\<close>

lemma samesize_no_trim:
  assumes "\<not> flt bias (Finite 0)" "\<not> flt (Finite 1) bias"
    and "arr_h (A self) \<noteq> 0" "arr_w (A self) \<noteq> 0"
    and "scale cv tb self
           (PyFloat (max (np_true_divide (height im2) (arr_h (A self)))
                         (np_true_divide (width im2) (arr_w (A self))))) PyNone None
           InterpNone
         = Inr scaled"
    and "height scaled \<le> width im2" "width scaled \<le> width im2"
  shows "samesize cv tb self im2 bias = Inl UnboundLocalError"
  using assms
  by (simp add: samesize_def samesize_rows_def samesize_cols_def Let_def)

text \<open>
  Examples with the stand-in library. A 2 by 4 image brought to 2 by 2 loses a column on
  each side. A 2 by 4 image brought to 2 by 3 has one column too many, \<open>d2\<close> is 0 and
  the slice \<open>1:-0\<close> is empty: the result has no columns. A 2 by 2 image brought to
  4 by 2 is scaled to 4 by 4, rows are trimmed and the read of \<open>o.width\<close> fails.
\<close>

lemma round_double_small:
  "round_double 1 = 1" "round_double 2 = 2" "round_double 3 = 3" "round_double 4 = 4"
  "round_double (1 / 2) = 1 / 2" "round_double (3 / 4) = 3 / 4"
proof -
  have p: "2 powr real_of_int (- 1) = (1 / 2 :: real)" "2 powr real_of_int (- 2) = (1 / 4 :: real)"
    using powr_realpow [of "2 :: real" 2]
    by (simp_all add: powr_neg_one powr_minus_divide)
  show "round_double 1 = 1" using round_double_exact [of 1 1 0] by simp
  show "round_double 2 = 2" using round_double_exact [of 2 2 0] by simp
  show "round_double 3 = 3" using round_double_exact [of 3 3 0] by simp
  show "round_double 4 = 4" using round_double_exact [of 4 4 0] by simp
  show "round_double (1 / 2) = 1 / 2" using round_double_exact [of "1 / 2" 1 "- 1"] p by simp
  show "round_double (3 / 4) = 3 / 4" using round_double_exact [of "3 / 4" 3 "- 2"] p by simp
qed

lemma trim_first_2_half: "trim_first 2 (Finite (1 / 2)) = Inr 1"
  using fl_of_int [of 1] by (simp add: trim_first_def int_to_float_small trunc_def)

lemma trim_first_1_half: "trim_first 1 (Finite (1 / 2)) = Inr 1"
  using fl_half_int [of 1] by (simp add: trim_first_def int_to_float_small trunc_def)

lemma trim_first_0_half: "trim_first 0 (Finite (1 / 2)) = Inr 1"
  using fl_of_int [of 0] by (simp add: trim_first_def int_to_float_small trunc_def)

text \<open>
  The product \<open>d * bias\<close> is the rounded one: with 10 columns to trim and the bias
  0.7, the first trim is \<open>int(np.floor(7.0))\<close>, which is 7.
\<close>

lemma trim_first_rounds: "trim_first 10 (Finite (3152519739159347 / 2 ^ 52)) = Inr 7"
  using fl_10_times_07 by (simp add: trim_first_def int_to_float_small trunc_def)

lemma samesize_trims_columns:
  "samesize demo_cv demo_tb (rgb 2 4) (rgb 2 2) (Finite (1 / 2)) = Inr (rgb 2 2)"
  by (simp add: samesize_def np_true_divide_def round_double_small scale_def demo_cv_def resize_nearest_def rgb_def py_round_def
      samesize_rows_def samesize_cols_def height_def width_def getitem_cols3_def
      py_slice_def slice_bound_def eval_nat_numeral upt_rec Let_def trim_first_2_half)

lemma samesize_one_column_too_many:
  "samesize demo_cv demo_tb (rgb 2 4) (rgb 2 3) (Finite (1 / 2)) = Inr (rgb 2 0)"
  by (simp add: samesize_def np_true_divide_def round_double_small scale_def demo_cv_def resize_nearest_def rgb_def py_round_def
      samesize_rows_def samesize_cols_def height_def width_def getitem_cols3_def
      py_slice_def slice_bound_def eval_nat_numeral upt_rec Let_def trim_first_1_half)

lemma samesize_rows_trimmed:
  "samesize demo_cv demo_tb (rgb 2 2) (rgb 4 2) (Finite (1 / 2)) = Inl AttributeError"
  by (simp add: samesize_def np_true_divide_def round_double_small scale_def demo_cv_def resize_nearest_def rgb_def py_round_def
      samesize_rows_def samesize_cols_def height_def width_def getitem_rows3_def
      py_slice_def slice_bound_def eval_nat_numeral upt_rec Let_def trim_first_0_half)

text \<open>
  C1. \<open>samesize\<close> is documented to return an image with the dimensions of \<open>im2\<close>. It
  does not: for a 2 by 2 colour image and a target of the same size, the scale factor is 1,
  neither \<open>if\<close> is entered, \<open>out\<close> is never assigned and the \<open>return\<close> statement
  raises \<open>UnboundLocalError\<close>.
\<close>

theorem samesize_same_size_unbound:
  "samesize demo_cv demo_tb rgb2 rgb2 (Finite (1 / 2)) = Inl UnboundLocalError"
  by (simp add: samesize_def np_true_divide_def round_double_small scale_def demo_cv_def resize_nearest_def rgb2_def py_round_def
      samesize_rows_def samesize_cols_def height_def width_def)

text \<open>
  C7, as stated, fails for a bias that is NaN. NaN is neither below 0 nor above 1, so
  the check of the first line lets it pass; the image is scaled, and where a 2 by 4 image
  is brought to 2 by 2 columns must be trimmed, \<open>d * bias\<close> is NaN and \<open>int\<close> raises
  \<open>ValueError\<close>. That the scaling came first shows with a library whose \<open>resize\<close>
  fails: then the error is the library's.
\<close>

theorem samesize_nan_bias:
  "samesize demo_cv demo_tb (rgb 2 4) (rgb 2 2) NaN = Inl ValueError
   \<and> \<not> flt NaN (Finite 0) \<and> \<not> flt (Finite 1) NaN
   \<and> samesize (demo_cv\<lparr>resize := (\<lambda>src fx fy ip. Inl CvError)\<rparr>) demo_tb
        (rgb 2 4) (rgb 2 2) NaN = Inl CvError"
  by (simp add: samesize_def np_true_divide_def round_double_small scale_def demo_cv_def resize_nearest_def rgb_def py_round_def
      samesize_rows_def samesize_cols_def height_def width_def trim_first_def
      int_to_float_small Let_def)

text \<open>
  C7, amended. A bias below 0 or above 1 makes \<open>samesize\<close> raise \<open>ValueError\<close>
  whatever the libraries do, also when every library call would fail: the check comes
  before any scaling or cropping, and the function has no assignment to \<open>self\<close> on any
  path. Conversely, for a bias that is not NaN and when \<open>cv.resize\<close> itself never raises
  \<open>ValueError\<close> (OpenCV raises \<open>cv2.error\<close>), a \<open>ValueError\<close> from \<open>samesize\<close>
  means the bias was below 0 or above 1.
\<close>

theorem samesize_bias_check:
  "(flt bias (Finite 0) \<or> flt (Finite 1) bias \<longrightarrow>
      samesize cv tb self im2 bias = Inl ValueError) \<and>
   ((\<forall>a fx fy i. resize cv a fx fy i \<noteq> Inl ValueError) \<and> bias \<noteq> NaN \<and>
      samesize cv tb self im2 bias = Inl ValueError
    \<longrightarrow> flt bias (Finite 0) \<or> flt (Finite 1) bias)"
proof (intro conjI impI)
  assume "flt bias (Finite 0) \<or> flt (Finite 1) bias"
  then show "samesize cv tb self im2 bias = Inl ValueError"
    by (simp add: samesize_def)
next
  assume a: "(\<forall>a fx fy i. resize cv a fx fy i \<noteq> Inl ValueError) \<and> bias \<noteq> NaN \<and>
      samesize cv tb self im2 bias = Inl ValueError"
  show "flt bias (Finite 0) \<or> flt (Finite 1) bias"
  proof (rule ccontr)
    assume n: "\<not> (flt bias (Finite 0) \<or> flt (Finite 1) bias)"
    with a obtain b where "bias = Finite b"
      using bias_in_range_finite by blast
    then have no: "\<And>d. trim_first d bias \<noteq> Inl ValueError"
      using trim_first_no_ValueError by simp
    have "samesize cv tb self im2 bias \<noteq> Inl ValueError"
      using n a no
      by (auto simp: samesize_def scale_def samesize_rows_def samesize_cols_def
          getitem_rows3_def getitem_cols3_def Let_def
          split: if_splits sum.splits option.splits pyobj.splits)
    then show False using a by simp
  qed
qed

theorem samesize_bias_check_witness:
  "flt (Finite 1) (Finite 2)
   \<and> (\<forall>a fx fy i. resize demo_cv a fx fy i \<noteq> Inl ValueError)
   \<and> Finite 2 \<noteq> NaN
   \<and> samesize demo_cv demo_tb rgb2 rgb2 (Finite 2) = Inl ValueError"
proof -
  have lib: "\<forall>a fx fy i. resize demo_cv a fx fy i \<noteq> Inl ValueError"
    by (simp add: demo_cv_def resize_nearest_def Let_def)
  show ?thesis
    using lib samesize_bias_check [of "Finite 2" demo_cv demo_tb rgb2 rgb2] by simp
qed

section \<open>Properties of hcat\<close>

lemma upt_Suc_shift: "[0..<Suc n] = 0 # map Suc [0..<n]"
  by (simp add: upt_conv_Cons map_Suc_upt del: upt_Suc)

text \<open>
  The rows \<open>hcat\<close> adds below an image never hold the pad value: it is passed to
  \<open>np.pad\<close> as the constant for the rows above, of which there are none. So the result
  of \<open>hcat\<close> does not depend on \<open>pad\<close> at all.
\<close>

lemma np_pad_bottom_before:
  "np_pad a ((0, k), (0, 0)) (p, 0) = np_pad a ((0, k), (0, 0)) (q, 0)"
  by (simp add: np_pad_def Let_def split: option.splits)

lemma hcat_loop_pad_unused:
  "hcat_loop H p images combo u = hcat_loop H q images combo u"
proof (induction images arbitrary: combo u)
  case Nil
  show ?case by simp
next
  case (Cons im images)
  show ?case
    by (simp add: np_pad_bottom_before [of "A im" _ p q] Cons split: sum.splits)
qed

lemma hcat_pad_unused: "hcat pos p = hcat pos q"
  by (simp add: hcat_def hcat_loop_pad_unused [of _ p _ _ _ q] Let_def
      split: list.splits sum.splits hcat_arg.splits)

text \<open>
  The method \<open>pad\<close> does fill the rows it adds below with its value, cast to the
  dtype of the image.
\<close>

lemma Image_pad_bottom:
  "Image_pad (grey [[1, 2]]) 0 0 0 1 9 =
     Inr \<lparr>A = \<lparr>arr_h = 2, arr_w = 2, arr_planes = None, arr_dtype = ''uint8'',
               arr_data = [[[1], [2]], [[9], [9]]]\<rparr>,
          colororder = None\<rparr>"
  by (simp add: Image_pad_def np_pad_def np_cast_def int_dtype_def trunc_def grey_def)

lemma Image_pad_wraps:
  "Image_pad (grey [[1, 2]]) 0 0 0 1 300 =
     Inr \<lparr>A = \<lparr>arr_h = 2, arr_w = 2, arr_planes = None, arr_dtype = ''uint8'',
               arr_data = [[[1], [2]], [[44], [44]]]\<rparr>,
          colororder = None\<rparr>"
  by (simp add: Image_pad_def np_pad_def np_cast_def int_dtype_def trunc_def grey_def)

text \<open>
  The sizes and the offsets are as documented. For greyscale images no higher than \<open>H\<close>
  the loop succeeds, keeps the height \<open>H\<close>, adds the widths, and appends to \<open>u\<close> the
  width of the images before each image.
\<close>

lemma hcat_loop_grey:
  assumes "\<forall>im\<in>set images. arr_planes (A im) = None \<and> height im \<le> H"
    and "arr_planes combo = None" and "arr_h combo = H"
  shows "\<exists>combo'. hcat_loop H p images combo u =
           Inr (combo', u @ map (\<lambda>i. arr_w combo + sum_list (map width (take i images)))
                              [0..<length images])
         \<and> arr_h combo' = H
         \<and> arr_w combo' = arr_w combo + sum_list (map width images)
         \<and> arr_planes combo' = None"
  using assms
proof (induction images arbitrary: combo u)
  case Nil
  then show ?case by simp
next
  case (Cons im images)
  define img' where "img' = (if height im < H
       then np_pad (A im) ((0, H - height im), (0, 0)) (p, 0) else Inr (A im))"
  have "\<exists>a. img' = Inr a \<and> arr_h a = H \<and> arr_w a = width im \<and> arr_planes a = None"
  proof (cases "height im < H")
    case True
    then show ?thesis using Cons.prems(1)
      by (simp add: img'_def np_pad_def Let_def height_def width_def)
  next
    case False
    then show ?thesis using Cons.prems(1)
      by (simp add: img'_def height_def width_def)
  qed
  then obtain a where a: "img' = Inr a" "arr_h a = H" "arr_w a = width im" "arr_planes a = None"
    by blast
  obtain c where c: "np_hstack combo a = Inr c" "arr_h c = H"
      "arr_w c = arr_w combo + width im" "arr_planes c = None"
    using a Cons.prems(2,3) by (auto simp: np_hstack_def)
  have "\<forall>im\<in>set images. arr_planes (A im) = None \<and> height im \<le> H"
    using Cons.prems(1) by simp
  from Cons.IH [OF this c(4) c(2), of "u @ [arr_w combo]"]
  obtain combo' where r: "hcat_loop H p images c (u @ [arr_w combo]) =
        Inr (combo', (u @ [arr_w combo]) @
          map (\<lambda>i. arr_w c + sum_list (map width (take i images))) [0..<length images])"
      "arr_h combo' = H" "arr_w combo' = arr_w c + sum_list (map width images)"
      "arr_planes combo' = None"
    by blast
  have "hcat_loop H p (im # images) combo u = hcat_loop H p images c (u @ [arr_w combo])"
    using a(1) c(1) by (simp add: img'_def [symmetric])
  moreover have "(u @ [arr_w combo]) @
          map (\<lambda>i. arr_w c + sum_list (map width (take i images))) [0..<length images]
      = u @ map (\<lambda>i. arr_w combo + sum_list (map width (take i (im # images))))
              [0..<length (im # images)]"
    by (simp add: upt_Suc_shift c(3) o_def del: upt_Suc)
  ultimately show ?case using r c(3) by simp
qed

lemma hcat_grey:
  assumes "images \<noteq> []" and "\<forall>im\<in>set images. arr_planes (A im) = None"
  shows "\<exists>combo. hcat [ArgSeq images] p =
           Inr (combo, map (\<lambda>i. sum_list (map width (take i images))) [0..<length images])
         \<and> height combo = Max (set (map height images))
         \<and> width combo = sum_list (map width images)"
proof -
  let ?H = "Max (set (map height images))"
  have "\<forall>im\<in>set images. arr_planes (A im) = None \<and> height im \<le> ?H"
    using assms(2) by simp
  from hcat_loop_grey [OF this, of "np_empty2 ?H 0" p "[]"]
  show ?thesis using assms(1)
    by (auto simp: hcat_def np_empty2_def Let_def height_def width_def)
qed

text \<open>
  C6. The sizes of \<open>combo\<close> and the offsets \<open>u\<close> are as the claim says, but the padding
  is not: for the 1 by 2 image \<open>[[1, 2]]\<close>, the 2 by 1 image \<open>[[3], [4]]\<close> and the pad
  value 9, the row added below the first image holds 0, not 9.
\<close>

theorem hcat_pads_with_zero:
  "hcat [ArgImage (grey [[1, 2]]), ArgImage (grey [[3], [4]])] 9 =
     Inr (\<lparr>A = \<lparr>arr_h = 2, arr_w = 3, arr_planes = None, arr_dtype = ''float64'',
                arr_data = [[[1], [2], [3]], [[0], [0], [4]]]\<rparr>,
           colororder = None\<rparr>,
          [0, 2])"
  by (simp add: hcat_def grey_def np_empty2_def np_pad_def np_cast_def int_dtype_def
      trunc_def np_hstack_def height_def)

section \<open>Properties of Tile\<close>

lemma tile_row_eq:
  "tile_row c sep w u v tiles canvas =
     (drop c tiles,
      canvas\<lparr>cnv_pasted := cnv_pasted canvas @
         map (\<lambda>j. (tiles ! j, u + int j * (w + sep), v)) [0..<min c (length tiles)]\<rparr>)"
proof (induction c sep w u v tiles canvas rule: tile_row.induct)
  case (3 c sep w u v im tiles canvas)
  have "map (\<lambda>j. ((im # tiles) ! j, u + int j * (w + sep), v)) [0..<Suc (min c (length tiles))]
      = (im, u, v) # map (\<lambda>j. (tiles ! j, u + (w + sep) + int j * (w + sep), v))
                       [0..<min c (length tiles)]"
    by (simp add: upt_Suc_shift o_def algebra_simps del: upt_Suc)
  with 3 show ?case by (simp add: paste_def)
qed simp_all

lemma layout_split:
  assumes "0 < c"
  shows "layout c sep w h v tiles =
     map (\<lambda>j. (tiles ! j, sep + int j * (w + sep), v)) [0..<min c (length tiles)]
     @ layout c sep w h (v + (h + sep)) (drop c tiles)"
proof (cases "c \<le> length tiles")
  case False
  then show ?thesis using assms by (simp add: layout_def min_def)
next
  case True
  have "[0..<length tiles] = [0..<c] @ map (\<lambda>i. i + c) [0..<length tiles - c]"
    using True by (metis add.commute le_add_diff_inverse map_add_upt upt_add_eq_append zero_le)
  then have "layout c sep w h v tiles =
      map (\<lambda>i. (tiles ! i, sep + int (i mod c) * (w + sep), v + int (i div c) * (h + sep)))
        [0..<c]
    @ map (\<lambda>i. (tiles ! (i + c), sep + int ((i + c) mod c) * (w + sep),
                 v + int ((i + c) div c) * (h + sep)))
        [0..<length tiles - c]"
    by (simp add: layout_def o_def)
  moreover have
    "map (\<lambda>i. (tiles ! i, sep + int (i mod c) * (w + sep), v + int (i div c) * (h + sep)))
       [0..<c]
     = map (\<lambda>j. (tiles ! j, sep + int j * (w + sep), v)) [0..<min c (length tiles)]"
    using True by (simp add: min_def)
  moreover have
    "map (\<lambda>i. (tiles ! (i + c), sep + int ((i + c) mod c) * (w + sep),
                v + int ((i + c) div c) * (h + sep)))
       [0..<length tiles - c]
     = layout c sep w h (v + (h + sep)) (drop c tiles)"
    using True assms by (simp add: layout_def algebra_simps)
  ultimately show ?thesis by simp
qed

text \<open>
  With at least one column the outer loop ends, with no tile left and every tile pasted
  at its place: induction on the number of tiles left, each round removing one or more.
\<close>

lemma tile_rows_eq:
  assumes "0 < columns"
  shows "tile_rows columns sep w h v tiles canvas =
     Some ([], canvas\<lparr>cnv_pasted := cnv_pasted canvas @ layout (nat columns) sep w h v tiles\<rparr>)"
proof (induction "length tiles" arbitrary: tiles v canvas rule: less_induct)
  case less
  show ?case
  proof (cases "tiles = []")
    case True
    then show ?thesis by (subst tile_rows.simps) (simp add: layout_def)
  next
    case False
    have pos: "0 < nat columns" using assms by simp
    have shorter: "length (drop (nat columns) tiles) < length tiles"
      using False pos by simp
    let ?row = "map (\<lambda>j. (tiles ! j, sep + int j * (w + sep), v))
                  [0..<min (nat columns) (length tiles)]"
    let ?canvas = "canvas\<lparr>cnv_pasted := cnv_pasted canvas @ ?row\<rparr>"
    have "tile_rows columns sep w h v tiles canvas =
        tile_rows columns sep w h (v + (h + sep)) (drop (nat columns) tiles) ?canvas"
      using False by (subst tile_rows.simps) (simp add: tile_row_eq)
    also have "\<dots> = Some ([], ?canvas\<lparr>cnv_pasted := cnv_pasted ?canvas @
        layout (nat columns) sep w h (v + (h + sep)) (drop (nat columns) tiles)\<rparr>)"
      by (rule less [OF shorter])
    also have "\<dots> = Some ([], canvas\<lparr>cnv_pasted := cnv_pasted canvas @
        layout (nat columns) sep w h v tiles\<rparr>)"
      by (simp add: layout_split [OF pos, of sep w h v tiles])
    finally show ?thesis .
  qed
qed

text \<open>Whenever the outer loop ends, for any number of columns, no tile is left.\<close>

lemma tile_rows_empties:
  assumes "tile_rows columns sep w h v tiles canvas = Some r"
  shows "fst r = []"
proof (rule tile_rows.raw_induct
    [where P = "\<lambda>columns sep w h v tiles canvas r. fst r = []", OF _ assms])
  fix loop columns sep w h v tiles canvas r
  assume IH: "\<And>columns sep w h v tiles canvas r.
      loop columns sep w h v tiles canvas = Some r \<Longrightarrow> fst r = []"
    and step: "(if 0 < length tiles
        then case tile_row (nat columns) sep w sep v tiles canvas of
               (tiles', canvas') \<Rightarrow> loop columns sep w h (v + (h + sep)) tiles' canvas'
        else Some (tiles, canvas)) = Some r"
  show "fst r = []"
  proof (cases "0 < length tiles")
    case True
    then show ?thesis using step IH by (auto split: prod.splits)
  next
    case False
    then show ?thesis using step by auto
  qed
qed


lemma Tile_Cons:
  assumes "check_tiles (shape (A t)) (arr_dtype (A t)) ts = None" and "0 < columns"
  shows "Tile (t # ts) columns sep bgcolor =
    Some ([],
      Inr \<lparr>cnv_width = columns * int (shape (A t) ! 1) + (columns + 1) * sep,
           cnv_height =
             \<lceil>real (length (t # ts)) / real_of_int columns\<rceil> * int (shape (A t) ! 0)
             + (\<lceil>real (length (t # ts)) / real_of_int columns\<rceil> + 1) * sep,
           cnv_value = bgcolor,
           cnv_dtype = arr_dtype (A t),
           cnv_colorized = (if length (shape (A t)) = 3 then Some (colororder t) else None),
           cnv_pasted = layout (nat columns) sep (int (shape (A t) ! 1)) (int (shape (A t) ! 0))
                          sep (t # ts)\<rparr>)"
  using assms
  by (simp add: Tile_def tile_rows_eq Constant_def colorize_def Let_def del: upt_Suc)




text \<open>
  C9. Whenever \<open>Tile\<close> returns a canvas, the list it was given is left empty; and it
  does return one, leaving the list empty, for every non-empty list of tiles of one shape
  and dtype and at least one column.
\<close>

theorem Tile_consumes:
  "(Tile tiles columns sep bgcolor = Some (tiles', Inr canvas) \<longrightarrow> tiles' = []) \<and>
   (tiles \<noteq> [] \<and> check_tiles (shape (A (hd tiles))) (arr_dtype (A (hd tiles))) (tl tiles) = None
      \<and> 0 < columns
    \<longrightarrow> (\<exists>canvas'. Tile tiles columns sep bgcolor = Some ([], Inr canvas')))"
proof (intro conjI impI)
  assume "Tile tiles columns sep bgcolor = Some (tiles', Inr canvas)"
  then show "tiles' = []"
    by (auto simp: Tile_def Let_def dest: tile_rows_empties
        split: list.splits option.splits if_splits)
next
  assume a: "tiles \<noteq> [] \<and>
    check_tiles (shape (A (hd tiles))) (arr_dtype (A (hd tiles))) (tl tiles) = None \<and> 0 < columns"
  then obtain t ts where ts: "tiles = t # ts" by (cases tiles) auto
  show "\<exists>canvas'. Tile tiles columns sep bgcolor = Some ([], Inr canvas')"
    using a Tile_Cons [of t ts columns sep bgcolor] by (simp add: ts)
qed

theorem Tile_consumes_witness:
  "check_tiles (shape (A (grey [[1, 2]]))) (arr_dtype (A (grey [[1, 2]])))
      [grey [[3, 4]], grey [[5, 6]]] = None
   \<and> (\<exists>canvas'. Tile [grey [[1, 2]], grey [[3, 4]], grey [[5, 6]]] 2 1 0 = Some ([], Inr canvas'))"
proof -
  have chk: "check_tiles (shape (A (grey [[1, 2]]))) (arr_dtype (A (grey [[1, 2]])))
      [grey [[3, 4]], grey [[5, 6]]] = None"
    by (simp add: grey_def shape_def)
  show ?thesis
    using chk Tile_consumes [of "[grey [[1, 2]], grey [[3, 4]], grey [[5, 6]]]" 2 1 0]
    by simp
qed

section \<open>Properties of rotate\<close>

text \<open>
  C5. For a scalar angle and a centre that is absent or has two items, \<open>rotate\<close> is what
  the specification says: the library's rotation matrix for the centre (by default the
  middle of the image), the angle in degrees and the scale 1, handed once to
  \<open>warpAffine\<close> with the pixel array and the size of the image. The result is a new
  image object with the colour order of \<open>self\<close>; \<open>rotate\<close> has no assignment to
  \<open>self\<close>, and nothing else is applied.
\<close>

theorem rotate_refines:
  "isscalar angle \<and> (case centre of None \<Rightarrow> True | Some c \<Rightarrow> length c = 2) \<longrightarrow>
     rotate cv self angle crop centre = rotate_spec cv self (num angle) centre"
  by (auto simp: rotate_def rotate_spec_def rotate_centre_def np_degrees_def Let_def
      split: option.splits sum.splits)

theorem rotate_refines_witness:
  "isscalar (PyFloat 0)
   \<and> rotate demo_cv rgb2 (PyFloat 0) PyNone None = rotate_spec demo_cv rgb2 0 None
   \<and> rotate demo_cv rgb2 (PyFloat 0) PyNone None =
       Inr \<lparr>A = \<lparr>arr_h = 2, arr_w = 2, arr_planes = Some 3, arr_dtype = ''uint8'',
                 arr_data = [[[0, 0, 0], [0, 0, 0]], [[0, 0, 0], [0, 0, 0]]]\<rparr>,
            colororder = Some ''RGB''\<rparr>"
  using rotate_refines [of "PyFloat 0" None demo_cv rgb2 PyNone]
  by (simp add: rotate_spec_def demo_cv_def rgb2_def width_def height_def eval_nat_numeral)

text \<open>
  C10. Given that the output of \<open>warpAffine\<close> has the size it is asked for, as OpenCV
  documents: the result of \<open>rotate\<close> does not depend on \<open>crop\<close>; an image it returns
  has the width and the height of \<open>self\<close>; and it does return one for a scalar angle
  and a valid centre whenever the two library calls succeed.
\<close>

theorem rotate_same_size:
  "(\<forall>src M w h arr. warpAffine cv src M (w, h) = Inr arr \<longrightarrow> arr_h arr = h \<and> arr_w arr = w)
   \<longrightarrow>
     rotate cv self angle crop centre = rotate cv self angle crop' centre
     \<and> (rotate cv self angle crop centre = Inr out \<longrightarrow>
          width out = width self \<and> height out = height self)
     \<and> (isscalar angle \<and> rotate_centre self centre = Inr c
          \<and> getRotationMatrix2D cv c (np_degrees (num angle)) 1 = Inr M
          \<and> warpAffine cv (A self) M (width self, height self) = Inr arr
        \<longrightarrow> rotate cv self angle crop centre = Inr \<lparr>A = arr, colororder = colororder self\<rparr>)"
  by (auto simp: rotate_def Let_def width_def height_def split: sum.splits)

theorem rotate_same_size_witness:
  "rotate demo_cv rgb2 (PyFloat 1) PyNone (Some [0, 0])
     = rotate demo_cv rgb2 (PyFloat 1) (PySeq [2, 2]) (Some [0, 0])
   \<and> rotate demo_cv rgb2 (PyFloat 1) PyNone (Some [0, 0]) =
       Inr \<lparr>A = \<lparr>arr_h = 2, arr_w = 2, arr_planes = Some 3, arr_dtype = ''uint8'',
                 arr_data = [[[0, 0, 0], [0, 0, 0]], [[0, 0, 0], [0, 0, 0]]]\<rparr>,
            colororder = Some ''RGB''\<rparr>
   \<and> width rgb2 = 2 \<and> height rgb2 = 2"
proof -
  have lib: "\<forall>src M w h arr. warpAffine demo_cv src M (w, h) = Inr arr
      \<longrightarrow> arr_h arr = h \<and> arr_w arr = w"
    by (auto simp: demo_cv_def split: if_splits)
  have c: "rotate_centre rgb2 (Some [0, 0]) = Inr [0, 0]"
    by (simp add: rotate_centre_def)
  have m: "getRotationMatrix2D demo_cv [0, 0] (np_degrees (num (PyFloat 1))) 1
      = Inr [[1, 0, 0], [0, 1, 0]]"
    by (simp add: demo_cv_def)
  have w: "warpAffine demo_cv (A rgb2) [[1, 0, 0], [0, 1, 0]] (width rgb2, height rgb2)
      = Inr \<lparr>arr_h = 2, arr_w = 2, arr_planes = Some 3, arr_dtype = ''uint8'',
              arr_data = [[[0, 0, 0], [0, 0, 0]], [[0, 0, 0], [0, 0, 0]]]\<rparr>"
    by (simp add: demo_cv_def rgb2_def width_def height_def eval_nat_numeral)
  have sz: "width rgb2 = 2 \<and> height rgb2 = 2"
    by (simp add: rgb2_def width_def height_def)
  have co: "colororder rgb2 = Some ''RGB''"
    by (simp add: rgb2_def)
  from lib c m w
    rotate_same_size [where cv = demo_cv and self = rgb2 and angle = "PyFloat 1"
        and crop = PyNone and crop' = "PySeq [2, 2]" and centre = "Some [0, 0]"
        and c = "[0, 0]" and M = "[[1, 0, 0], [0, 1, 0]]"
        and arr = "\<lparr>arr_h = 2, arr_w = 2, arr_planes = Some 3, arr_dtype = ''uint8'',
              arr_data = [[[0, 0, 0], [0, 0, 0]], [[0, 0, 0], [0, 0, 0]]]\<rparr>"
        and out = "\<lparr>A = \<lparr>arr_h = 2, arr_w = 2, arr_planes = Some 3, arr_dtype = ''uint8'',
              arr_data = [[[0, 0, 0], [0, 0, 0]], [[0, 0, 0], [0, 0, 0]]]\<rparr>,
            colororder = Some ''RGB''\<rparr>"]
  have "rotate demo_cv rgb2 (PyFloat 1) PyNone (Some [0, 0])
          = rotate demo_cv rgb2 (PyFloat 1) (PySeq [2, 2]) (Some [0, 0])
        \<and> rotate demo_cv rgb2 (PyFloat 1) PyNone (Some [0, 0]) =
            Inr \<lparr>A = \<lparr>arr_h = 2, arr_w = 2, arr_planes = Some 3, arr_dtype = ''uint8'',
                 arr_data = [[[0, 0, 0], [0, 0, 0]], [[0, 0, 0], [0, 0, 0]]]\<rparr>,
               colororder = colororder rgb2\<rparr>"
    by auto
  then show ?thesis
    using sz co by auto
qed

section \<open>Properties of the drawing functions\<close>

text \<open>
  Whenever \<open>draw_box\<close> returns, both corners were determined and the result is the pair
  of them, each coordinate through \<open>int\<close>.
\<close>

lemma both_Inr: "both x y = Inr r \<longleftrightarrow> x = Inr (fst r) \<and> y = Inr (snd r)"
  by (cases x; cases y) (auto simp: both_def)

lemma draw_box_returns:
  assumes "snd (draw_box cv tb img bbox bl tl' br tr wh centre color fillcolor alpha thickness)
         = Inr r"
  shows "\<exists>bl2 tr2. box_corners bbox bl tl' tr wh centre = Inr (Some bl2, Some tr2)
              \<and> int_corner bl2 = Inr (fst r) \<and> int_corner tr2 = Inr (snd r)"
proof (cases "box_corners bbox bl tl' tr wh centre")
  case (Inl e)
  then show ?thesis
    using assms unfolding draw_box_def by (simp split: if_splits)
next
  case (Inr c)
  obtain bl1 tr1 where c: "c = (bl1, tr1)" by (cases c)
  show ?thesis
    using assms unfolding draw_box_def Inr c
    by (auto split: if_splits prod.splits sum.splits option.splits)
qed

text \<open>
  Halving an \<open>int\<close> of less than 53 bits is exact, and so are the sum and the difference
  of an \<open>int\<close> and such a half when both ints are at most \<open>2^51\<close> in magnitude.
\<close>

lemma half_int:
  "\<bar>w\<bar> < 2 ^ 53 \<Longrightarrow> py_truediv (PyI w) (PyI 2) = Inr (PyF (Finite (of_int w / 2)))"
  by (simp add: fl_half_int)

lemma sub_half_int:
  assumes "\<bar>x\<bar> \<le> 2 ^ 51" "\<bar>w\<bar> \<le> 2 ^ 51"
  shows "sub_half (PyI x) (PyI w) = Inr (PyF (Finite (of_int x - of_int w / 2)))"
proof -
  have b: "\<bar>2 * x - w\<bar> < 2 ^ 53" using assms by simp
  have e: "(of_int x - of_int w / 2 :: real) = of_int (2 * x - w) / 2"
    by simp
  have f: "fl (of_int x - of_int w / 2) = Finite (of_int x - of_int w / 2)"
    unfolding e using b by (rule fl_half_int)
  have "\<bar>w\<bar> < 2 ^ 53" using assms by simp
  then have hw: "py_truediv (PyI w) (PyI 2) = Inr (PyF (Finite (of_int w / 2)))"
    by (rule half_int)
  have "\<bar>x\<bar> < 2 ^ 53" using assms by simp
  then have fx: "int_to_float x = Inr (Finite (of_int x))"
    by (rule int_to_float_small)
  show ?thesis
    unfolding sub_half_def hw by (simp add: fx f fsub_def)
qed

lemma add_half_int:
  assumes "\<bar>x\<bar> \<le> 2 ^ 51" "\<bar>w\<bar> \<le> 2 ^ 51"
  shows "add_half (PyI x) (PyI w) = Inr (PyF (Finite (of_int x + of_int w / 2)))"
proof -
  have b: "\<bar>2 * x + w\<bar> < 2 ^ 53" using assms by simp
  have e: "(of_int x + of_int w / 2 :: real) = of_int (2 * x + w) / 2"
    by simp
  have f: "fl (of_int x + of_int w / 2) = Finite (of_int x + of_int w / 2)"
    unfolding e using b by (rule fl_half_int)
  have "\<bar>w\<bar> < 2 ^ 53" using assms by simp
  then have hw: "py_truediv (PyI w) (PyI 2) = Inr (PyF (Finite (of_int w / 2)))"
    by (rule half_int)
  have "\<bar>x\<bar> < 2 ^ 53" using assms by simp
  then have fx: "int_to_float x = Inr (Finite (of_int x))"
    by (rule int_to_float_small)
  show ?thesis
    unfolding add_half_def hw by (simp add: fx f)
qed

lemma box_corners_centre_int:
  assumes "\<bar>x\<bar> \<le> 2 ^ 51" "\<bar>y\<bar> \<le> 2 ^ 51" "\<bar>w\<bar> \<le> 2 ^ 51" "\<bar>h\<bar> \<le> 2 ^ 51"
  shows "box_corners None None None None (Some (PyI w, PyI h)) (Some (PyI x, PyI y))
       = Inr (Some (PyF (Finite (of_int x - of_int w / 2)),
                    PyF (Finite (of_int y - of_int h / 2))),
              Some (PyF (Finite (of_int x + of_int w / 2)),
                    PyF (Finite (of_int y + of_int h / 2))))"
  using assms by (simp add: sub_half_int add_half_int both_def)

text \<open>
  With floats a sum can lose the width altogether: \<open>9007199254740992.0 + 1.0\<close> is
  \<open>9007199254740992.0\<close>, since \<open>2^53 + 1\<close> is not a double.
\<close>

lemma box_corners_float_big:
  "box_corners None (Some (PyF (Finite 9007199254740992), PyI 0)) None None
       (Some (PyF (Finite 1), PyI 1)) None
     = Inr (Some (PyF (Finite 9007199254740992), PyI 0),
            Some (PyF (Finite 9007199254740992), PyI 1))
   \<and> extent (box_corners None (Some (PyF (Finite 9007199254740992), PyI 0)) None None
       (Some (PyF (Finite 1), PyI 1)) None) = Some (0, 1)"
  by (simp add: fl_2_53_plus_1 both_def extent_def)

text \<open>
  C2, as stated, fails for float coordinates: a corner is the rounded sum. With the
  bottom-left corner \<open>(0.7, 0)\<close> and the width and height \<open>(0.3, 1)\<close>, where 0.7 and
  0.3 are the doubles \<open>3152519739159347 / 2^52\<close> and \<open>5404319552844595 / 2^54\<close>, the
  sum \<open>0.7 + 0.3\<close> is rounded to \<open>1.0\<close>. The corners then differ by
  \<open>5404319552844596 / 2^54\<close> in the first coordinate, which is not the width (it is the
  double next above), and \<open>draw_box\<close> returns \<open>((0, 0), (1, 1))\<close>.
\<close>

theorem draw_box_float_corner:
  "box_corners None (Some (PyF (Finite (3152519739159347 / 2 ^ 52)), PyI 0)) None None
       (Some (PyF (Finite (5404319552844595 / 2 ^ 54)), PyI 1)) None
     = Inr (Some (PyF (Finite (3152519739159347 / 2 ^ 52)), PyI 0),
            Some (PyF (Finite 1), PyI 1))
   \<and> extent (box_corners None (Some (PyF (Finite (3152519739159347 / 2 ^ 52)), PyI 0))
         None None (Some (PyF (Finite (5404319552844595 / 2 ^ 54)), PyI 1)) None)
     = Some (5404319552844596 / 2 ^ 54, 1)
   \<and> extent (box_corners None (Some (PyF (Finite (3152519739159347 / 2 ^ 52)), PyI 0))
         None None (Some (PyF (Finite (5404319552844595 / 2 ^ 54)), PyI 1)) None)
     \<noteq> Some (5404319552844595 / 2 ^ 54, 1)
   \<and> draw_box demo_cv demo_tb (A rgb2) None
       (Some (PyF (Finite (3152519739159347 / 2 ^ 52)), PyI 0)) None None None
       (Some (PyF (Finite (5404319552844595 / 2 ^ 54)), PyI 1)) None
       (PySeq [255, 0, 0]) PyNone PyNone 1
     = (paint (A rgb2), Inr ((0, 0), (1, 1)))"
  using fl_07_plus_03
  by (simp add: both_def extent_def draw_box_def int_corner_def trunc_def demo_cv_def
      rgb2_def shape_def)

text \<open>
  C2, amended. For coordinates that are Python ints the corners computed differ by
  \<open>(w, h)\<close> in the modes bottom-left, top-right and top-left with width and height,
  and in the mode centre with width and height when the four numbers are at most
  \<open>2^51\<close> in magnitude (the
  halves \<open>w / 2\<close> and \<open>h / 2\<close> are floats); from a bounding box the corners are its
  first and its second column; and a call of \<open>draw_box\<close> that returns returns the two
  corners, each coordinate through \<open>int\<close>, which truncates a float.
\<close>

theorem draw_box_corners:
  "extent (box_corners None (Some (PyI x, PyI y)) None None (Some (PyI w, PyI h)) None)
     = Some (of_int w, of_int h)
   \<and> extent (box_corners None None None (Some (PyI x, PyI y)) (Some (PyI w, PyI h)) None)
     = Some (of_int w, of_int h)
   \<and> extent (box_corners None None (Some (PyI x, PyI y)) None (Some (PyI w, PyI h)) None)
     = Some (of_int w, of_int h)
   \<and> (\<bar>x\<bar> \<le> 2 ^ 51 \<and> \<bar>y\<bar> \<le> 2 ^ 51 \<and> \<bar>w\<bar> \<le> 2 ^ 51 \<and> \<bar>h\<bar> \<le> 2 ^ 51 \<longrightarrow>
        extent (box_corners None None None None (Some (PyI w, PyI h)) (Some (PyI x, PyI y)))
          = Some (of_int w, of_int h))
   \<and> box_corners (Some ((b00, b01), (b10, b11))) bl tl' tr wh centre
       = Inr (Some (b00, b10), Some (b01, b11))
   \<and> (snd (draw_box cv tb img bbox bl tl' br tr wh centre color fillcolor alpha thickness)
         = Inr r
       \<longrightarrow> (\<exists>bl2 tr2. box_corners bbox bl tl' tr wh centre = Inr (Some bl2, Some tr2)
              \<and> py_int (fst bl2) = Inr (fst (fst r)) \<and> py_int (snd bl2) = Inr (snd (fst r))
              \<and> py_int (fst tr2) = Inr (fst (snd r)) \<and> py_int (snd tr2) = Inr (snd (snd r))))"
proof -
  have ret: "snd (draw_box cv tb img bbox bl tl' br tr wh centre color fillcolor alpha thickness)
         = Inr r
       \<longrightarrow> (\<exists>bl2 tr2. box_corners bbox bl tl' tr wh centre = Inr (Some bl2, Some tr2)
              \<and> py_int (fst bl2) = Inr (fst (fst r)) \<and> py_int (snd bl2) = Inr (snd (fst r))
              \<and> py_int (fst tr2) = Inr (fst (snd r)) \<and> py_int (snd tr2) = Inr (snd (snd r)))"
    using draw_box_returns [of cv tb img bbox bl tl' br tr wh centre color fillcolor alpha
        thickness r]
    by (simp add: int_corner_def both_Inr)
  have centre: "\<bar>x\<bar> \<le> 2 ^ 51 \<and> \<bar>y\<bar> \<le> 2 ^ 51 \<and> \<bar>w\<bar> \<le> 2 ^ 51 \<and> \<bar>h\<bar> \<le> 2 ^ 51 \<longrightarrow>
        extent (box_corners None None None None (Some (PyI w, PyI h)) (Some (PyI x, PyI y)))
          = Some (of_int w, of_int h)"
  proof
    assume "\<bar>x\<bar> \<le> 2 ^ 51 \<and> \<bar>y\<bar> \<le> 2 ^ 51 \<and> \<bar>w\<bar> \<le> 2 ^ 51 \<and> \<bar>h\<bar> \<le> 2 ^ 51"
    then have "box_corners None None None None (Some (PyI w, PyI h)) (Some (PyI x, PyI y))
       = Inr (Some (PyF (Finite (of_int x - of_int w / 2)),
                    PyF (Finite (of_int y - of_int h / 2))),
              Some (PyF (Finite (of_int x + of_int w / 2)),
                    PyF (Finite (of_int y + of_int h / 2))))"
      using box_corners_centre_int [of x y w h] by blast
    then show "extent (box_corners None None None None (Some (PyI w, PyI h))
        (Some (PyI x, PyI y))) = Some (of_int w, of_int h)"
      by (simp only: extent_def) simp
  qed
  have ints: "extent (box_corners None (Some (PyI x, PyI y)) None None (Some (PyI w, PyI h)) None)
       = Some (of_int w, of_int h)"
    "extent (box_corners None None None (Some (PyI x, PyI y)) (Some (PyI w, PyI h)) None)
       = Some (of_int w, of_int h)"
    "extent (box_corners None None (Some (PyI x, PyI y)) None (Some (PyI w, PyI h)) None)
       = Some (of_int w, of_int h)"
    by (simp_all add: extent_def both_def)
  show ?thesis
    using ret centre ints by simp
qed

theorem draw_box_corners_witness:
  "\<bar>3::int\<bar> \<le> 2 ^ 51 \<and> \<bar>2::int\<bar> \<le> 2 ^ 51 \<and> \<bar>4::int\<bar> \<le> 2 ^ 51
   \<and> draw_box demo_cv demo_tb (A rgb2) None None None None None (Some (PyI 4, PyI 3))
      (Some (PyI 3, PyI 2)) (PySeq [255, 0, 0]) PyNone PyNone 1
     = (paint (A rgb2), Inr ((1, 0), (5, 3)))
   \<and> box_corners None None None None (Some (PyI 4, PyI 3)) (Some (PyI 3, PyI 2))
       = Inr (Some (PyF (Finite 1), PyF (Finite (1 / 2))),
              Some (PyF (Finite 5), PyF (Finite (7 / 2))))
   \<and> extent (box_corners None None None None (Some (PyI 4, PyI 3)) (Some (PyI 3, PyI 2)))
       = Some (4, 3)"
proof -
  have c: "box_corners None None None None (Some (PyI 4, PyI 3)) (Some (PyI 3, PyI 2))
       = Inr (Some (PyF (Finite 1), PyF (Finite (1 / 2))),
              Some (PyF (Finite 5), PyF (Finite (7 / 2))))"
    using box_corners_centre_int [of 3 2 4 3] by simp
  have run: "draw_box demo_cv demo_tb (A rgb2) None None None None None (Some (PyI 4, PyI 3))
      (Some (PyI 3, PyI 2)) (PySeq [255, 0, 0]) PyNone PyNone 1
     = (paint (A rgb2), Inr ((1, 0), (5, 3)))"
    unfolding draw_box_def c
    by (simp add: demo_cv_def int_corner_def both_def trunc_def rgb2_def shape_def)
  show ?thesis
    using run c
      draw_box_corners [where cv = demo_cv and tb = demo_tb and img = "A rgb2"
        and bbox = None and bl = None and tl' = None and br = None and tr = None
        and wh = "Some (PyI 4, PyI 3)" and centre = "Some (PyI 3, PyI 2)"
        and color = "PySeq [255, 0, 0]" and fillcolor = PyNone and alpha = PyNone
        and thickness = 1 and r = "((1, 0), (5, 3))"
        and x = 3 and y = 2 and w = 4 and h = 3
        and ?b00.0 = "PyI 0" and ?b01.0 = "PyI 0" and ?b10.0 = "PyI 0" and ?b11.0 = "PyI 0"]
    by simp
qed

text \<open>
  C4. Every call of \<open>draw_labelbox\<close> raises \<open>NameError\<close>, whatever the arguments and
  whatever the libraries do, and leaves the image as it was: the first line reads
  \<open>color\<close>, which is neither a parameter or local of the function nor a global of the
  module.
\<close>

theorem draw_labelbox_NameError:
  "draw_labelbox cv tb img text textcolor font fontsize fontthickness kwargs
     = (img, Inl NameError)"
  by (simp add: draw_labelbox_def load_global_def module_globals_def builtins_used_def)

text \<open>
  C8. With a colour that is not an \<open>int\<close> and a 2-dimensional image, each of
  \<open>draw_box\<close>, \<open>draw_text\<close> and \<open>draw_point\<close> raises \<open>TypeError\<close> and leaves
  the image as it was, whatever the libraries do.
\<close>

theorem draw_greyscale_guard:
  "\<not> isinstance_int color \<and> length (shape img) = 2 \<longrightarrow>
     draw_box cv tb img bbox bl tl' br tr wh centre color fillcolor alpha thickness
       = (img, Inl TypeError)
     \<and> draw_text cv tb img pos text color font fontsize fontthickness = (img, Inl TypeError)
     \<and> draw_point cv tb img pos' marker text color font fontsize fontthickness
       = (img, Inl TypeError)"
  by (simp add: draw_box_def draw_text_def draw_point_def)

theorem draw_greyscale_guard_witness:
  "\<not> isinstance_int (PyStr ''red'') \<and> length (shape (A (grey [[1, 2]]))) = 2
   \<and> draw_box demo_cv demo_tb (A (grey [[1, 2]])) None (Some (PyI 0, PyI 0)) None None None
        (Some (PyI 1, PyI 1)) None (PyStr ''red'') PyNone PyNone 1
       = (A (grey [[1, 2]]), Inl TypeError)
   \<and> draw_text demo_cv demo_tb (A (grey [[1, 2]])) (0, 0) (Some ''a'') (PyStr ''red'') 0
        (3 / 10) 2
       = (A (grey [[1, 2]]), Inl TypeError)
   \<and> draw_point demo_cv demo_tb (A (grey [[1, 2]])) (PosSeq [ItemSeq [0, 0]]) ''+''
        (Some ''a'') (PyStr ''red'') 0 (3 / 10) 2
       = (A (grey [[1, 2]]), Inl TypeError)"
proof -
  have pre: "\<not> isinstance_int (PyStr ''red'') \<and> length (shape (A (grey [[1, 2]]))) = 2"
    by (simp add: grey_def shape_def)
  show ?thesis
    using pre
      draw_greyscale_guard [of "PyStr ''red''" "A (grey [[1, 2]])" demo_cv demo_tb
        None "Some (PyI 0, PyI 0)" None None None "Some (PyI 1, PyI 1)" None
        PyNone PyNone 1
        "(0, 0)" "Some ''a''" 0 "3 / 10" 2 "PosSeq [ItemSeq [0, 0]]" "''+''"]
    by simp
qed

text \<open>
  The guard is what stops the call: with an \<open>int\<close> colour the same \<open>draw_text\<close> draws.
\<close>

lemma draw_text_int_colour:
  "draw_text demo_cv demo_tb (A (grey [[1, 2]])) (0, 0) (Some ''a'') (PyInt 7) 0 (3 / 10) 2
     = (paint (A (grey [[1, 2]])), Inr ())"
  by (simp add: draw_text_def demo_cv_def grey_def shape_def)

end
